theory Spec2Isabelle
  imports Main "HOL-Library.Sublist"
begin

section \<open>Python values, exceptions and the interaction state\<close>

text \<open>
  The repository is a wrapper class around the Google Cloud Storage client library.
  The library, the file system and the network are not code of the repository; they
  are taken as a parameter (the record \<open>runtime\<close> below). What the wrapper does is
  its sequence of calls into that parameter, what it logs, and what it returns or
  raises. All three are explicit in the model.

  An exception is an instance of Python's \<open>Exception\<close> (what \<open>except Exception\<close>
  catches); the wrapper only ever reads \<open>str(e)\<close> and re-raises the instance.
\<close>

datatype exn = Exn (str: string)

datatype log_entry = Info string | Error string

datatype timedelta = Timedelta (total_seconds: int)

definition timedelta_minutes :: "int \<Rightarrow> timedelta" where
  "timedelta_minutes m = Timedelta (60 * m)"

subsection \<open>storage\_config.py\<close>

record rule_action =
  action_type :: string
  storageClass :: "string option"

record rule_condition =
  age :: int
  matchesStorageClass :: "string list option"

record lifecycle_rule =
  action :: rule_action
  condition :: rule_condition

record storage_config =
  location :: string
  default_storage_class :: string
  labels :: "(string \<times> string) list"
  lifecycle_rules :: "lifecycle_rule list"

text \<open>\<open>os.getenv(key, default)\<close> on the process environment, a map from names to strings.\<close>

definition getenv :: "(string \<rightharpoonup> string) \<Rightarrow> string \<Rightarrow> string \<Rightarrow> string" where
  "getenv environ key dflt = (case environ key of None \<Rightarrow> dflt | Some v \<Rightarrow> v)"

text \<open>
  \<open>int(os.getenv(key, n))\<close> with an integer default \<open>n\<close>: when the variable is unset
  \<open>int\<close> is applied to the integer \<open>n\<close> and returns it; when it is set, \<open>int\<close> parses
  the string and raises \<open>ValueError\<close> on a malformed one. Python's built-in parser is
  the parameter \<open>py_int\<close>.
\<close>

definition getenv_int ::
  "(string \<Rightarrow> exn + int) \<Rightarrow> (string \<rightharpoonup> string) \<Rightarrow> string \<Rightarrow> int \<Rightarrow> exn + int" where
  "getenv_int py_int environ key dflt =
     (case environ key of None \<Rightarrow> Inr dflt | Some v \<Rightarrow> py_int v)"

text \<open>
  The module-level dictionary \<open>STORAGE_CONFIG\<close>, evaluated once at import. The only
  operations of the literal that can raise are the three \<open>int\<close> conversions, which
  run in this order; a failing one aborts the import.
\<close>

definition STORAGE_CONFIG ::
  "(string \<Rightarrow> exn + int) \<Rightarrow> (string \<rightharpoonup> string) \<Rightarrow> exn + storage_config" where
  "STORAGE_CONFIG py_int environ =
     (case getenv_int py_int environ ''GCS_NEARLINE_AGE_DAYS'' 30 of
        Inl e \<Rightarrow> Inl e
      | Inr nearline_age \<Rightarrow>
     (case getenv_int py_int environ ''GCS_COLDLINE_AGE_DAYS'' 90 of
        Inl e \<Rightarrow> Inl e
      | Inr coldline_age \<Rightarrow>
     (case getenv_int py_int environ ''GCS_DELETE_AGE_DAYS'' 365 of
        Inl e \<Rightarrow> Inl e
      | Inr delete_age \<Rightarrow>
        Inr \<lparr> location = getenv environ ''GCS_LOCATION'' ''asia-south1'',
              default_storage_class = getenv environ ''GCS_STORAGE_CLASS'' ''STANDARD'',
              labels = [(''environment'', getenv environ ''GCS_ENV'' ''development''),
                        (''project'', getenv environ ''GCS_PROJECT'' ''dust-info'')],
              lifecycle_rules =
                [\<lparr> action = \<lparr> action_type = ''SetStorageClass'',
                               storageClass = Some ''NEARLINE'' \<rparr>,
                    condition = \<lparr> age = nearline_age,
                                  matchesStorageClass = Some [''STANDARD''] \<rparr> \<rparr>,
                 \<lparr> action = \<lparr> action_type = ''SetStorageClass'',
                               storageClass = Some ''COLDLINE'' \<rparr>,
                    condition = \<lparr> age = coldline_age,
                                  matchesStorageClass = Some [''NEARLINE''] \<rparr> \<rparr>,
                 \<lparr> action = \<lparr> action_type = ''Delete'', storageClass = None \<rparr>,
                    condition = \<lparr> age = delete_age,
                                  matchesStorageClass = None \<rparr> \<rparr>] \<rparr>)))"

text \<open>
  A decimal parser for plain digit strings, used where a concrete \<open>py_int\<close> is needed.
  It agrees with Python's \<open>int\<close> on strings of ASCII digits and rejects everything else.
\<close>

definition digit_of :: "char \<Rightarrow> int option" where
  "digit_of = map_of
     [(CHR ''0'', 0), (CHR ''1'', 1), (CHR ''2'', 2), (CHR ''3'', 3), (CHR ''4'', 4),
      (CHR ''5'', 5), (CHR ''6'', 6), (CHR ''7'', 7), (CHR ''8'', 8), (CHR ''9'', 9)]"

fun digits_value :: "int \<Rightarrow> string \<Rightarrow> exn + int" where
  "digits_value acc [] = Inr acc"
| "digits_value acc (c # cs) =
     (case digit_of c of
        None \<Rightarrow> Inl (Exn ''ValueError: invalid literal for int() with base 10'')
      | Some d \<Rightarrow> digits_value (10 * acc + d) cs)"

definition decimal_int :: "string \<Rightarrow> exn + int" where
  "decimal_int s =
     (if s = [] then Inl (Exn ''ValueError: invalid literal for int() with base 10'')
      else digits_value 0 s)"


section \<open>The runtime the wrapper calls into\<close>

text \<open>
  Python objects the wrapper only passes around (the client, buckets, blobs, the file,
  the parsed JSON, the credentials) are references of an arbitrary type \<open>'o\<close>; the
  state behind them (the Python heap of library objects, the file system, the cloud)
  is the world \<open>'w\<close>. A call takes the world and returns a value or raises, together
  with the new world.
\<close>

type_synonym ('w, 'a) io = "'w \<Rightarrow> (exn + 'a) \<times> 'w"

datatype 'o pyval =
    PNone
  | PBool bool
  | PStr string
  | PStrs "string list"
  | PObj 'o
  | PObjs "'o list"

text \<open>Every call the wrapper makes outside its own code, with its arguments.\<close>

datatype 'o event =
    PathResolve string
  | FileOpen string
  | JsonLoad 'o
  | FileClose 'o
  | GetItem 'o string
  | CredentialsFromInfo 'o
  | StorageClient 'o 'o
  | ClientGetBucket 'o string
  | ClientCreateBucket 'o string string
  | ClientBucket 'o string
  | BucketExists 'o
  | BucketCreate 'o string
  | BucketSetStorageClass 'o string
  | BucketSetLabels 'o "(string \<times> string) list"
  | BucketSetLifecycleRules 'o "lifecycle_rule list"
  | BucketPatch 'o
  | BucketBlob 'o string
  | BucketListBlobs 'o
  | BlobUploadFromFilename 'o string
  | BlobDownloadToFilename 'o string
  | BlobDelete 'o
  | BlobGenerateSignedUrl 'o string timedelta string

datatype 'o outcome = Returned "'o pyval" | Raised exn

record ('w, 'o) runtime =
  path_parent :: "string \<Rightarrow> string"
  path_join :: "string \<Rightarrow> string \<Rightarrow> string"
  path_resolve :: "string \<Rightarrow> ('w, string) io"
  file_open :: "string \<Rightarrow> ('w, 'o) io"
  file_close :: "'o \<Rightarrow> ('w, unit) io"
  json_load :: "'o \<Rightarrow> ('w, 'o) io"
  getitem :: "'o \<Rightarrow> string \<Rightarrow> ('w, 'o) io"
  from_service_account_info :: "'o \<Rightarrow> ('w, 'o) io"
  storage_Client :: "'o \<Rightarrow> 'o \<Rightarrow> ('w, 'o) io"
  client_get_bucket :: "'o \<Rightarrow> string \<Rightarrow> ('w, 'o) io"
  client_create_bucket :: "'o \<Rightarrow> string \<Rightarrow> string \<Rightarrow> ('w, 'o) io"
  client_bucket :: "'o \<Rightarrow> string \<Rightarrow> ('w, 'o) io"
  bucket_exists :: "'o \<Rightarrow> ('w, bool) io"
  bucket_create :: "'o \<Rightarrow> string \<Rightarrow> ('w, unit) io"
  bucket_set_storage_class :: "'o \<Rightarrow> string \<Rightarrow> ('w, unit) io"
  bucket_set_labels :: "'o \<Rightarrow> (string \<times> string) list \<Rightarrow> ('w, unit) io"
  bucket_set_lifecycle_rules :: "'o \<Rightarrow> lifecycle_rule list \<Rightarrow> ('w, unit) io"
  bucket_patch :: "'o \<Rightarrow> ('w, unit) io"
  bucket_blob :: "'o \<Rightarrow> string \<Rightarrow> ('w, 'o) io"
  bucket_list_blobs :: "'o \<Rightarrow> ('w, 'o list) io"
  blob_upload_from_filename :: "'o \<Rightarrow> string \<Rightarrow> ('w, unit) io"
  blob_download_to_filename :: "'o \<Rightarrow> string \<Rightarrow> ('w, unit) io"
  blob_delete :: "'o \<Rightarrow> ('w, unit) io"
  blob_generate_signed_url :: "'o \<Rightarrow> string \<Rightarrow> timedelta \<Rightarrow> string \<Rightarrow> ('w, string) io"
  blob_name :: "'o \<Rightarrow> 'w \<Rightarrow> string"

text \<open>
  The state a method runs in: the world, what the logger has received, and the
  interaction trace (every outside call made so far with its outcome).
\<close>

record ('w, 'o) state =
  world :: 'w
  logged :: "log_entry list"
  trace :: "('o event \<times> 'o outcome) list"

type_synonym ('w, 'o, 'a) prog = "('w, 'o) state \<Rightarrow> (exn + 'a) \<times> ('w, 'o) state"

definition returns :: "'a \<Rightarrow> ('w, 'o, 'a) prog" where
  "returns x = (\<lambda>s. (Inr x, s))"

definition raises :: "exn \<Rightarrow> ('w, 'o, 'a) prog" where
  "raises e = (\<lambda>s. (Inl e, s))"

definition bind :: "('w, 'o, 'a) prog \<Rightarrow> ('a \<Rightarrow> ('w, 'o, 'b) prog) \<Rightarrow> ('w, 'o, 'b) prog" where
  "bind m f = (\<lambda>s. case m s of (Inl e, s') \<Rightarrow> (Inl e, s') | (Inr x, s') \<Rightarrow> f x s')"

text \<open>\<open>try: m except Exception as e: h e\<close>\<close>

definition try_except ::
  "('w, 'o, 'a) prog \<Rightarrow> (exn \<Rightarrow> ('w, 'o, 'a) prog) \<Rightarrow> ('w, 'o, 'a) prog" where
  "try_except m h = (\<lambda>s. case m s of (Inl e, s') \<Rightarrow> h e s' | (Inr x, s') \<Rightarrow> (Inr x, s'))"

definition logger_info :: "string \<Rightarrow> ('w, 'o, unit) prog" where
  "logger_info msg = (\<lambda>s. (Inr (), s\<lparr>logged := logged s @ [Info msg]\<rparr>))"

definition logger_error :: "string \<Rightarrow> ('w, 'o, unit) prog" where
  "logger_error msg = (\<lambda>s. (Inr (), s\<lparr>logged := logged s @ [Error msg]\<rparr>))"

text \<open>
  An outside call: run it on the world, and append the call and its outcome to the
  trace. \<open>as_val\<close> says how the typed result is shown in the trace.
\<close>

definition call ::
  "'o event \<Rightarrow> ('a \<Rightarrow> 'o pyval) \<Rightarrow> ('w, 'a) io \<Rightarrow> ('w, 'o, 'a) prog" where
  "call ev as_val m =
     (\<lambda>s. case m (world s) of
        (Inl e, w') \<Rightarrow> (Inl e, s\<lparr>world := w', trace := trace s @ [(ev, Raised e)]\<rparr>)
      | (Inr x, w') \<Rightarrow> (Inr x, s\<lparr>world := w', trace := trace s @ [(ev, Returned (as_val x))]\<rparr>))"

definition unit_val :: "unit \<Rightarrow> 'o pyval" where
  "unit_val u = PNone"


text \<open>Reading an attribute of a library object (\<open>blob.name\<close>): no call, no failure.\<close>

definition reads :: "('w \<Rightarrow> 'a) \<Rightarrow> ('w, 'o, 'a) prog" where
  "reads f = (\<lambda>s. (Inr (f (world s)), s))"

text \<open>
  \<open>str.split(sep)\<close> for a one-character separator: the pieces between the separators,
  in order. The result is never empty, so \<open>[-1]\<close> on it never raises and is \<open>last\<close>.
  A \<open>char\<close> is a byte; the byte of \<open>/\<close> occurs in UTF-8 only as that character, so
  splitting bytes at it splits the code points at it.
\<close>

fun split_from :: "char \<Rightarrow> string \<Rightarrow> string \<Rightarrow> string list" where
  "split_from sep cur [] = [cur]"
| "split_from sep cur (c # cs) =
     (if c = sep then cur # split_from sep [] cs else split_from sep (cur @ [c]) cs)"

definition py_split :: "string \<Rightarrow> char \<Rightarrow> string list" where
  "py_split s sep = split_from sep [] s"

section \<open>service\_account\_storage.py\<close>

record 'o service_account_storage =
  config :: storage_config
  project_id :: 'o
  credentials :: 'o
  client :: 'o



definition get_bucket ::
  "('w, 'o) runtime \<Rightarrow> 'o service_account_storage \<Rightarrow> string \<Rightarrow> ('w, 'o, 'o) prog" where
  "get_bucket rt self bucket_name =
     try_except
       (bind (call (ClientGetBucket (client self) bucket_name) PObj
                (client_get_bucket rt (client self) bucket_name)) (\<lambda>bucket.
        returns bucket))
       (\<lambda>e. bind (logger_error (''Failed to get bucket '' @ bucket_name @ '': '' @ str e))
              (\<lambda>u. raises e))"

text \<open>
  \<open>create_bucket(self, bucket_name, location="US")\<close>: the argument \<open>loc\<close> is \<open>None\<close>
  when the caller leaves the location out.
\<close>

definition create_bucket ::
  "('w, 'o) runtime \<Rightarrow> 'o service_account_storage \<Rightarrow> string \<Rightarrow> string option \<Rightarrow>
   ('w, 'o, 'o) prog" where
  "create_bucket rt self bucket_name loc =
     (let location_arg = (case loc of None \<Rightarrow> ''US'' | Some l \<Rightarrow> l) in
      try_except
        (bind (call (ClientCreateBucket (client self) bucket_name location_arg) PObj
                 (client_create_bucket rt (client self) bucket_name location_arg)) (\<lambda>bucket.
         bind (logger_info (''Created bucket '' @ bucket_name)) (\<lambda>u.
         returns bucket)))
        (\<lambda>e. bind (logger_error (''Failed to create bucket '' @ bucket_name @ '': '' @ str e))
               (\<lambda>u. raises e)))"

definition get_or_create_bucket ::
  "('w, 'o) runtime \<Rightarrow> 'o service_account_storage \<Rightarrow> string \<Rightarrow> ('w, 'o, 'o) prog" where
  "get_or_create_bucket rt self bucket_name =
     try_except
       (bind (call (ClientBucket (client self) bucket_name) PObj
                (client_bucket rt (client self) bucket_name)) (\<lambda>bucket0.
        bind (call (BucketExists bucket0) PBool (bucket_exists rt bucket0)) (\<lambda>ex.
        if ex then
          bind (logger_info (''Using existing bucket: '' @ bucket_name)) (\<lambda>u.
          returns bucket0)
        else
          bind (call (ClientBucket (client self) bucket_name) PObj
                  (client_bucket rt (client self) bucket_name)) (\<lambda>bucket.
          bind (call (BucketCreate bucket (location (config self))) unit_val
                  (bucket_create rt bucket (location (config self)))) (\<lambda>u.
          bind (call (BucketSetStorageClass bucket (default_storage_class (config self))) unit_val
                  (bucket_set_storage_class rt bucket (default_storage_class (config self)))) (\<lambda>u.
          bind (call (BucketSetLabels bucket (labels (config self))) unit_val
                  (bucket_set_labels rt bucket (labels (config self)))) (\<lambda>u.
          bind (call (BucketPatch bucket) unit_val (bucket_patch rt bucket)) (\<lambda>u.
          bind (call (BucketSetLifecycleRules bucket (lifecycle_rules (config self))) unit_val
                  (bucket_set_lifecycle_rules rt bucket (lifecycle_rules (config self)))) (\<lambda>u.
          bind (call (BucketPatch bucket) unit_val (bucket_patch rt bucket)) (\<lambda>u.
          bind (logger_info (''Created new bucket: '' @ bucket_name @ '' in '' @
                  location (config self) @ '' with storage class '' @
                  default_storage_class (config self))) (\<lambda>u.
          returns bucket)))))))))))
       (\<lambda>e. bind (logger_error (''Error with bucket '' @ bucket_name @ '': '' @ str e))
              (\<lambda>u. raises e))"

definition upload_file ::
  "('w, 'o) runtime \<Rightarrow> 'o service_account_storage \<Rightarrow> string \<Rightarrow> string \<Rightarrow>
   ('w, 'o, string option) prog" where
  "upload_file rt self bucket_name file_path =
     try_except
       (bind (get_or_create_bucket rt self bucket_name) (\<lambda>bucket.
        bind (call (BucketBlob bucket (last (py_split file_path CHR ''/''))) PObj
                (bucket_blob rt bucket (last (py_split file_path CHR ''/'')))) (\<lambda>blob.
        bind (call (BlobUploadFromFilename blob file_path) unit_val
                (blob_upload_from_filename rt blob file_path)) (\<lambda>u.
        bind (logger_info (''Successfully uploaded '' @ file_path @ '' to '' @ bucket_name)) (\<lambda>u.
        bind (reads (blob_name rt blob)) (\<lambda>name.
        returns (Some name)))))))
       (\<lambda>e. bind (logger_error (''Failed to upload file '' @ file_path @ '': '' @ str e))
              (\<lambda>u. returns None))"

definition download_file ::
  "('w, 'o) runtime \<Rightarrow> 'o service_account_storage \<Rightarrow> string \<Rightarrow> string \<Rightarrow> string \<Rightarrow>
   ('w, 'o, unit) prog" where
  "download_file rt self bucket_name source_blob_name destination_file_path =
     try_except
       (bind (get_bucket rt self bucket_name) (\<lambda>bucket.
        bind (call (BucketBlob bucket source_blob_name) PObj
                (bucket_blob rt bucket source_blob_name)) (\<lambda>blob.
        bind (call (BlobDownloadToFilename blob destination_file_path) unit_val
                (blob_download_to_filename rt blob destination_file_path)) (\<lambda>u.
        logger_info (''Downloaded '' @ source_blob_name @ '' to '' @ destination_file_path)))))
       (\<lambda>e. bind (logger_error (''Failed to download file '' @ source_blob_name @ '': '' @ str e))
              (\<lambda>u. raises e))"

definition delete_file ::
  "('w, 'o) runtime \<Rightarrow> 'o service_account_storage \<Rightarrow> string \<Rightarrow> string \<Rightarrow>
   ('w, 'o, unit) prog" where
  "delete_file rt self bucket_name blob_name_arg =
     try_except
       (bind (get_bucket rt self bucket_name) (\<lambda>bucket.
        bind (call (BucketBlob bucket blob_name_arg) PObj
                (bucket_blob rt bucket blob_name_arg)) (\<lambda>blob.
        bind (call (BlobDelete blob) unit_val (blob_delete rt blob)) (\<lambda>u.
        logger_info (''Deleted file '' @ blob_name_arg @ '' from bucket '' @ bucket_name)))))
       (\<lambda>e. bind (logger_error (''Failed to delete file '' @ blob_name_arg @ '': '' @ str e))
              (\<lambda>u. raises e))"

definition list_files ::
  "('w, 'o) runtime \<Rightarrow> 'o service_account_storage \<Rightarrow> string \<Rightarrow> ('w, 'o, string list) prog" where
  "list_files rt self bucket_name =
     try_except
       (bind (call (ClientBucket (client self) bucket_name) PObj
                (client_bucket rt (client self) bucket_name)) (\<lambda>bucket.
        bind (call (BucketListBlobs bucket) PObjs (bucket_list_blobs rt bucket)) (\<lambda>blobs.
        reads (\<lambda>w. map (\<lambda>blob. blob_name rt blob w) blobs))))
       (\<lambda>e. bind (logger_error (''Failed to list files: '' @ str e))
              (\<lambda>u. returns []))"

definition get_signed_url ::
  "('w, 'o) runtime \<Rightarrow> 'o service_account_storage \<Rightarrow> string \<Rightarrow> string \<Rightarrow>
   ('w, 'o, string option) prog" where
  "get_signed_url rt self bucket_name blob_name_arg =
     try_except
       (bind (call (ClientBucket (client self) bucket_name) PObj
                (client_bucket rt (client self) bucket_name)) (\<lambda>bucket.
        bind (call (BucketBlob bucket blob_name_arg) PObj
                (bucket_blob rt bucket blob_name_arg)) (\<lambda>blob.
        bind (call (BlobGenerateSignedUrl blob ''v4'' (timedelta_minutes 15) ''GET'') PStr
                (blob_generate_signed_url rt blob ''v4'' (timedelta_minutes 15) ''GET'')) (\<lambda>url.
        returns (Some url)))))
       (\<lambda>e. bind (logger_error (''Failed to generate signed URL: '' @ str e))
              (\<lambda>u. returns None))"

subsection \<open>The public methods as one interface\<close>

datatype method_call =
    GetBucket string
  | CreateBucket string "string option"
  | GetOrCreateBucket string
  | UploadFile string string
  | DownloadFile string string string
  | DeleteFile string string
  | ListFiles string
  | GetSignedUrl string string

definition as_pyval :: "('a \<Rightarrow> 'o pyval) \<Rightarrow> ('w, 'o, 'a) prog \<Rightarrow> ('w, 'o, 'o pyval) prog" where
  "as_pyval f m = (\<lambda>s. case m s of (Inl e, s') \<Rightarrow> (Inl e, s') | (Inr x, s') \<Rightarrow> (Inr (f x), s'))"

definition opt_str :: "string option \<Rightarrow> 'o pyval" where
  "opt_str r = (case r of None \<Rightarrow> PNone | Some x \<Rightarrow> PStr x)"

fun invoke ::
  "('w, 'o) runtime \<Rightarrow> 'o service_account_storage \<Rightarrow> method_call \<Rightarrow> ('w, 'o, 'o pyval) prog" where
  "invoke rt self (GetBucket n) = as_pyval PObj (get_bucket rt self n)"
| "invoke rt self (CreateBucket n loc) = as_pyval PObj (create_bucket rt self n loc)"
| "invoke rt self (GetOrCreateBucket n) = as_pyval PObj (get_or_create_bucket rt self n)"
| "invoke rt self (UploadFile n p) = as_pyval opt_str (upload_file rt self n p)"
| "invoke rt self (DownloadFile n b d) = as_pyval unit_val (download_file rt self n b d)"
| "invoke rt self (DeleteFile n b) = as_pyval unit_val (delete_file rt self n b)"
| "invoke rt self (ListFiles n) = as_pyval PStrs (list_files rt self n)"
| "invoke rt self (GetSignedUrl n b) = as_pyval opt_str (get_signed_url rt self n b)"

text \<open>The calls a run added to the trace.\<close>

definition new_calls :: "('w, 'o) state \<Rightarrow> ('w, 'o) state \<Rightarrow> ('o event \<times> 'o outcome) list" where
  "new_calls s s' = drop (length (trace s)) (trace s')"

definition new_logs :: "('w, 'o) state \<Rightarrow> ('w, 'o) state \<Rightarrow> log_entry list" where
  "new_logs s s' = drop (length (logged s)) (logged s')"


section \<open>An in-memory runtime for running the wrapper on concrete inputs\<close>

text \<open>
  A stand-in for the library and the cloud, small enough to evaluate: buckets with
  their settings, the objects they hold, and the property assignments a local bucket
  object has not sent yet. \<open>fault\<close> chooses the calls that raise. The theorems below
  hold for every runtime; this one only supplies concrete runs.
\<close>

datatype obj = OClient | OBucket string | OBlob string string | OFile string | OJson | OStr string | OCreds

record bucket_meta =
  meta_location :: string
  meta_storage_class :: string
  meta_labels :: "(string \<times> string) list"
  meta_lifecycle :: "lifecycle_rule list"

record staged =
  staged_storage_class :: "string option"
  staged_labels :: "(string \<times> string) list option"
  staged_lifecycle :: "lifecycle_rule list option"

record cloud =
  buckets :: "(string \<times> bucket_meta) list"
  blobs :: "(string \<times> string) list"
  staging :: "(string \<times> staged) list"

definition put :: "'k \<Rightarrow> 'v \<Rightarrow> ('k \<times> 'v) list \<Rightarrow> ('k \<times> 'v) list" where
  "put k v xs = filter (\<lambda>p. fst p \<noteq> k) xs @ [(k, v)]"

definition no_staged :: staged where
  "no_staged = \<lparr> staged_storage_class = None, staged_labels = None, staged_lifecycle = None \<rparr>"

definition staged_of :: "cloud \<Rightarrow> string \<Rightarrow> staged" where
  "staged_of w n = (case map_of (staging w) n of None \<Rightarrow> no_staged | Some st \<Rightarrow> st)"

definition apply_staged :: "staged \<Rightarrow> bucket_meta \<Rightarrow> bucket_meta" where
  "apply_staged st m =
     \<lparr> meta_location = meta_location m,
       meta_storage_class =
         (case staged_storage_class st of None \<Rightarrow> meta_storage_class m | Some c \<Rightarrow> c),
       meta_labels = (case staged_labels st of None \<Rightarrow> meta_labels m | Some l \<Rightarrow> l),
       meta_lifecycle = (case staged_lifecycle st of None \<Rightarrow> meta_lifecycle m | Some r \<Rightarrow> r) \<rparr>"

definition guarded :: "(obj event \<Rightarrow> exn option) \<Rightarrow> obj event \<Rightarrow> (cloud, 'a) io \<Rightarrow> (cloud, 'a) io" where
  "guarded fault ev m = (\<lambda>w. case fault ev of Some e \<Rightarrow> (Inl e, w) | None \<Rightarrow> m w)"

definition on_bucket :: "obj \<Rightarrow> (string \<Rightarrow> (cloud, 'a) io) \<Rightarrow> (cloud, 'a) io" where
  "on_bucket b f =
     (case b of OBucket n \<Rightarrow> f n | _ \<Rightarrow> (\<lambda>w. (Inl (Exn ''AttributeError''), w)))"

definition on_blob :: "obj \<Rightarrow> (string \<Rightarrow> string \<Rightarrow> (cloud, 'a) io) \<Rightarrow> (cloud, 'a) io" where
  "on_blob b f =
     (case b of OBlob n k \<Rightarrow> f n k | _ \<Rightarrow> (\<lambda>w. (Inl (Exn ''AttributeError''), w)))"

definition new_bucket :: "string \<Rightarrow> string \<Rightarrow> (cloud, unit) io" where
  "new_bucket n loc =
     (\<lambda>w. if n \<in> set (map fst (buckets w)) then (Inl (Exn ''409 Conflict''), w)
          else (Inr (), w\<lparr>buckets := buckets w @
                  [(n, \<lparr> meta_location = loc, meta_storage_class = ''STANDARD'',
                         meta_labels = [], meta_lifecycle = [] \<rparr>)]\<rparr>))"

definition stage :: "string \<Rightarrow> (staged \<Rightarrow> staged) \<Rightarrow> (cloud, unit) io" where
  "stage n f = (\<lambda>w. (Inr (), w\<lparr>staging := put n (f (staged_of w n)) (staging w)\<rparr>))"

definition mem_runtime :: "(obj event \<Rightarrow> exn option) \<Rightarrow> (cloud, obj) runtime" where
  "mem_runtime fault =
     \<lparr> path_parent = (\<lambda>p. rev (drop 1 (dropWhile (\<lambda>c. c \<noteq> CHR ''/'') (rev p)))),
       path_join = (\<lambda>a b. a @ ''/'' @ b),
       path_resolve = (\<lambda>p. guarded fault (PathResolve p) (\<lambda>w. (Inr p, w))),
       file_open = (\<lambda>p. guarded fault (FileOpen p) (\<lambda>w. (Inr (OFile p), w))),
       file_close = (\<lambda>f. guarded fault (FileClose f) (\<lambda>w. (Inr (), w))),
       json_load = (\<lambda>f. guarded fault (JsonLoad f) (\<lambda>w. (Inr OJson, w))),
       getitem = (\<lambda>d k. guarded fault (GetItem d k) (\<lambda>w. (Inr (OStr ''demo-project''), w))),
       from_service_account_info =
         (\<lambda>i. guarded fault (CredentialsFromInfo i) (\<lambda>w. (Inr OCreds, w))),
       storage_Client = (\<lambda>p c. guarded fault (StorageClient p c) (\<lambda>w. (Inr OClient, w))),
       client_get_bucket = (\<lambda>c n. guarded fault (ClientGetBucket c n)
         (\<lambda>w. if n \<in> set (map fst (buckets w)) then (Inr (OBucket n), w)
              else (Inl (Exn ''404 Not Found''), w))),
       client_create_bucket = (\<lambda>c n loc. guarded fault (ClientCreateBucket c n loc)
         (\<lambda>w. case new_bucket n loc w of
                (Inl e, w') \<Rightarrow> (Inl e, w') | (Inr u, w') \<Rightarrow> (Inr (OBucket n), w'))),
       client_bucket = (\<lambda>c n. guarded fault (ClientBucket c n)
         (\<lambda>w. (Inr (OBucket n), w\<lparr>staging := filter (\<lambda>p. fst p \<noteq> n) (staging w)\<rparr>))),
       bucket_exists = (\<lambda>b. guarded fault (BucketExists b)
         (on_bucket b (\<lambda>n w. (Inr (n \<in> set (map fst (buckets w))), w)))),
       bucket_create = (\<lambda>b loc. guarded fault (BucketCreate b loc)
         (on_bucket b (\<lambda>n. new_bucket n loc))),
       bucket_set_storage_class = (\<lambda>b c. guarded fault (BucketSetStorageClass b c)
         (on_bucket b (\<lambda>n. stage n (\<lambda>st. st\<lparr>staged_storage_class := Some c\<rparr>)))),
       bucket_set_labels = (\<lambda>b l. guarded fault (BucketSetLabels b l)
         (on_bucket b (\<lambda>n. stage n (\<lambda>st. st\<lparr>staged_labels := Some l\<rparr>)))),
       bucket_set_lifecycle_rules = (\<lambda>b r. guarded fault (BucketSetLifecycleRules b r)
         (on_bucket b (\<lambda>n. stage n (\<lambda>st. st\<lparr>staged_lifecycle := Some r\<rparr>)))),
       bucket_patch = (\<lambda>b. guarded fault (BucketPatch b)
         (on_bucket b (\<lambda>n w. case map_of (buckets w) n of
              None \<Rightarrow> (Inl (Exn ''404 Not Found''), w)
            | Some m \<Rightarrow> (Inr (), w\<lparr>buckets := put n (apply_staged (staged_of w n) m) (buckets w),
                                  staging := filter (\<lambda>p. fst p \<noteq> n) (staging w)\<rparr>)))),
       bucket_blob = (\<lambda>b k. guarded fault (BucketBlob b k)
         (on_bucket b (\<lambda>n w. (Inr (OBlob n k), w)))),
       bucket_list_blobs = (\<lambda>b. guarded fault (BucketListBlobs b)
         (on_bucket b (\<lambda>n w. if n \<in> set (map fst (buckets w))
              then (Inr (map (\<lambda>p. OBlob n (snd p)) (filter (\<lambda>p. fst p = n) (blobs w))), w)
              else (Inl (Exn ''404 Not Found''), w)))),
       blob_upload_from_filename = (\<lambda>b p. guarded fault (BlobUploadFromFilename b p)
         (on_blob b (\<lambda>n k w. if n \<in> set (map fst (buckets w))
              then (Inr (), w\<lparr>blobs := filter (\<lambda>q. q \<noteq> (n, k)) (blobs w) @ [(n, k)]\<rparr>)
              else (Inl (Exn ''404 Not Found''), w)))),
       blob_download_to_filename = (\<lambda>b p. guarded fault (BlobDownloadToFilename b p)
         (on_blob b (\<lambda>n k w. if (n, k) \<in> set (blobs w) then (Inr (), w)
              else (Inl (Exn ''404 Not Found''), w)))),
       blob_delete = (\<lambda>b. guarded fault (BlobDelete b)
         (on_blob b (\<lambda>n k w. if (n, k) \<in> set (blobs w)
              then (Inr (), w\<lparr>blobs := filter (\<lambda>q. q \<noteq> (n, k)) (blobs w)\<rparr>)
              else (Inl (Exn ''404 Not Found''), w)))),
       blob_generate_signed_url = (\<lambda>b v t m. guarded fault (BlobGenerateSignedUrl b v t m)
         (on_blob b (\<lambda>n k w.
            (Inr (''https://storage.googleapis.com/'' @ n @ ''/'' @ k @ ''?X-Goog-Signature=0''), w)))),
       blob_name = (\<lambda>b w. case b of OBlob n k \<Rightarrow> k | _ \<Rightarrow> []) \<rparr>"

definition no_fault :: "obj event \<Rightarrow> exn option" where
  "no_fault ev = None"

definition every_call_fails :: "obj event \<Rightarrow> exn option" where
  "every_call_fails ev = Some (Exn ''503 Service Unavailable'')"

definition patch_fails :: "obj event \<Rightarrow> exn option" where
  "patch_fails ev = (case ev of BucketPatch b \<Rightarrow> Some (Exn ''503 Service Unavailable'') | _ \<Rightarrow> None)"

definition empty_cloud :: cloud where
  "empty_cloud = \<lparr> buckets = [], blobs = [], staging = [] \<rparr>"

definition start :: "cloud \<Rightarrow> (cloud, obj) state" where
  "start w = \<lparr> world = w, logged = [], trace = [] \<rparr>"

definition default_config :: storage_config where
  "default_config =
     \<lparr> location = ''asia-south1'',
       default_storage_class = ''STANDARD'',
       labels = [(''environment'', ''development''), (''project'', ''dust-info'')],
       lifecycle_rules =
         [\<lparr> action = \<lparr> action_type = ''SetStorageClass'', storageClass = Some ''NEARLINE'' \<rparr>,
             condition = \<lparr> age = 30, matchesStorageClass = Some [''STANDARD''] \<rparr> \<rparr>,
          \<lparr> action = \<lparr> action_type = ''SetStorageClass'', storageClass = Some ''COLDLINE'' \<rparr>,
             condition = \<lparr> age = 90, matchesStorageClass = Some [''NEARLINE''] \<rparr> \<rparr>,
          \<lparr> action = \<lparr> action_type = ''Delete'', storageClass = None \<rparr>,
             condition = \<lparr> age = 365, matchesStorageClass = None \<rparr> \<rparr>] \<rparr>"

definition demo_self :: "obj service_account_storage" where
  "demo_self = \<lparr> config = default_config, project_id = OStr ''demo-project'',
                 credentials = OCreds, client = OClient \<rparr>"

section \<open>Postconditions of a run\<close>

text \<open>
  \<open>post m Q\<close>: every run of \<open>m\<close> only appends to the trace and to the log, and \<open>Q\<close>
  holds of its result, the calls it added, the log entries it added and the world it
  ends in.
\<close>

definition post ::
  "('w, 'o, 'a) prog \<Rightarrow>
   (exn + 'a \<Rightarrow> ('o event \<times> 'o outcome) list \<Rightarrow> log_entry list \<Rightarrow> 'w \<Rightarrow> bool) \<Rightarrow> bool" where
  "post m Q = (\<forall>s r s'. m s = (r, s') \<longrightarrow>
     (\<exists>new lg. trace s' = trace s @ new \<and> logged s' = logged s @ lg \<and> Q r new lg (world s')))"

text \<open>
  The calls of the creation branch of \<open>get_or_create_bucket\<close> in order, when each of
  them returns: \<open>b0\<close> is the object of the first \<open>client.bucket\<close>, \<open>b\<close> of the second.
\<close>

definition creation_calls ::
  "'o \<Rightarrow> string \<Rightarrow> 'o \<Rightarrow> 'o \<Rightarrow> storage_config \<Rightarrow> ('o event \<times> 'o outcome) list" where
  "creation_calls c n b0 b cfg =
     [(ClientBucket c n, Returned (PObj b0)),
      (BucketExists b0, Returned (PBool False)),
      (ClientBucket c n, Returned (PObj b)),
      (BucketCreate b (location cfg), Returned PNone),
      (BucketSetStorageClass b (default_storage_class cfg), Returned PNone),
      (BucketSetLabels b (labels cfg), Returned PNone),
      (BucketPatch b, Returned PNone),
      (BucketSetLifecycleRules b (lifecycle_rules cfg), Returned PNone),
      (BucketPatch b, Returned PNone)]"

text \<open>Two clouds of the in-memory runtime: a bucket with and without its settings.\<close>

definition configured_cloud :: cloud where
  "configured_cloud =
     \<lparr> buckets = [(''demo'', \<lparr> meta_location = ''asia-south1'', meta_storage_class = ''STANDARD'',
                               meta_labels = labels default_config,
                               meta_lifecycle = lifecycle_rules default_config \<rparr>)],
       blobs = [], staging = [] \<rparr>"

definition unconfigured_cloud :: cloud where
  "unconfigured_cloud =
     \<lparr> buckets = [(''demo'', \<lparr> meta_location = ''asia-south1'', meta_storage_class = ''STANDARD'',
                               meta_labels = [], meta_lifecycle = [] \<rparr>)],
       blobs = [],
       staging = [(''demo'', \<lparr> staged_storage_class = Some ''STANDARD'',
                               staged_labels = Some (labels default_config),
                               staged_lifecycle = None \<rparr>)] \<rparr>"

text \<open>
  What the library promises about \<open>blob.name\<close>: a blob object made by
  \<open>bucket.blob(k)\<close> has the name \<open>k\<close>, whatever happens to the world afterwards.
\<close>

definition blob_named_at_creation :: "('w, 'o) runtime \<Rightarrow> bool" where
  "blob_named_at_creation rt =
     (\<forall>bucket k w blob w'. bucket_blob rt bucket k w = (Inr blob, w') \<longrightarrow>
        (\<forall>w''. blob_name rt blob w'' = k))"

text \<open>
  Vocabulary for statements about all public methods: which methods re-raise and what
  the others return instead (the \<open>raise\<close> and \<open>return\<close> statements of the handlers);
  whether a log entry is an error message ending in \<open>str(e)\<close>; the single library call
  of \<open>get_bucket\<close> and \<open>create_bucket\<close>; and the calls that belong to loading the
  credentials in \<open>__init__\<close>.
\<close>

fun reraises :: "method_call \<Rightarrow> bool" where
  "reraises (UploadFile n p) = False"
| "reraises (ListFiles n) = False"
| "reraises (GetSignedUrl n b) = False"
| "reraises mc = True"

fun default_value :: "method_call \<Rightarrow> 'o pyval" where
  "default_value (ListFiles n) = PStrs []"
| "default_value mc = PNone"

fun logs_error :: "exn \<Rightarrow> log_entry \<Rightarrow> bool" where
  "logs_error e (Error msg) = suffix (str e) msg"
| "logs_error e (Info msg) = False"

fun forwarded_call :: "'o service_account_storage \<Rightarrow> method_call \<Rightarrow> 'o event option" where
  "forwarded_call self (GetBucket n) = Some (ClientGetBucket (client self) n)"
| "forwarded_call self (CreateBucket n loc) =
     Some (ClientCreateBucket (client self) n (case loc of None \<Rightarrow> ''US'' | Some l \<Rightarrow> l))"
| "forwarded_call self mc = None"



section \<open>What a recorded call means\<close>

text \<open>
  \<open>perform rt ev w\<close> runs, on the world \<open>w\<close>, the runtime function that the call \<open>ev\<close>
  names, with the arguments \<open>ev\<close> carries, and gives the outcome as a trace shows it and
  the world it leaves. \<open>replays rt w calls w'\<close> says that performing \<open>calls\<close> in order from
  \<open>w\<close> gives exactly the outcomes recorded in \<open>calls\<close> and ends in \<open>w'\<close>: the trace is a
  faithful record of what was done to the world.
\<close>

definition recorded :: "('a \<Rightarrow> 'o pyval) \<Rightarrow> (exn + 'a) \<times> 'w \<Rightarrow> 'o outcome \<times> 'w" where
  "recorded as_val res =
     ((case fst res of Inl e \<Rightarrow> Raised e | Inr x \<Rightarrow> Returned (as_val x)), snd res)"

fun perform :: "('w, 'o) runtime \<Rightarrow> 'o event \<Rightarrow> 'w \<Rightarrow> 'o outcome \<times> 'w" where
  "perform rt (PathResolve p) w = recorded PStr (path_resolve rt p w)"
| "perform rt (FileOpen p) w = recorded PObj (file_open rt p w)"
| "perform rt (JsonLoad f) w = recorded PObj (json_load rt f w)"
| "perform rt (FileClose f) w = recorded unit_val (file_close rt f w)"
| "perform rt (GetItem d k) w = recorded PObj (getitem rt d k w)"
| "perform rt (CredentialsFromInfo i) w = recorded PObj (from_service_account_info rt i w)"
| "perform rt (StorageClient p c) w = recorded PObj (storage_Client rt p c w)"
| "perform rt (ClientGetBucket c n) w = recorded PObj (client_get_bucket rt c n w)"
| "perform rt (ClientCreateBucket c n l) w = recorded PObj (client_create_bucket rt c n l w)"
| "perform rt (ClientBucket c n) w = recorded PObj (client_bucket rt c n w)"
| "perform rt (BucketExists b) w = recorded PBool (bucket_exists rt b w)"
| "perform rt (BucketCreate b l) w = recorded unit_val (bucket_create rt b l w)"
| "perform rt (BucketSetStorageClass b c) w = recorded unit_val (bucket_set_storage_class rt b c w)"
| "perform rt (BucketSetLabels b l) w = recorded unit_val (bucket_set_labels rt b l w)"
| "perform rt (BucketSetLifecycleRules b r) w =
     recorded unit_val (bucket_set_lifecycle_rules rt b r w)"
| "perform rt (BucketPatch b) w = recorded unit_val (bucket_patch rt b w)"
| "perform rt (BucketBlob b k) w = recorded PObj (bucket_blob rt b k w)"
| "perform rt (BucketListBlobs b) w = recorded PObjs (bucket_list_blobs rt b w)"
| "perform rt (BlobUploadFromFilename b p) w =
     recorded unit_val (blob_upload_from_filename rt b p w)"
| "perform rt (BlobDownloadToFilename b p) w =
     recorded unit_val (blob_download_to_filename rt b p w)"
| "perform rt (BlobDelete b) w = recorded unit_val (blob_delete rt b w)"
| "perform rt (BlobGenerateSignedUrl b v t m) w =
     recorded PStr (blob_generate_signed_url rt b v t m w)"

fun replays ::
  "('w, 'o) runtime \<Rightarrow> 'w \<Rightarrow> ('o event \<times> 'o outcome) list \<Rightarrow> 'w \<Rightarrow> bool" where
  "replays rt w [] w' = (w' = w)"
| "replays rt w (c # cs) w' =
     (fst (perform rt (fst c) w) = snd c \<and> replays rt (snd (perform rt (fst c) w)) cs w')"

text \<open>
  \<open>post_from m w0 Q\<close>: as \<open>post\<close>, for the runs of \<open>m\<close> that start in the world \<open>w0\<close>.
\<close>

definition post_from ::
  "('w, 'o, 'a) prog \<Rightarrow> 'w \<Rightarrow>
   (exn + 'a \<Rightarrow> ('o event \<times> 'o outcome) list \<Rightarrow> log_entry list \<Rightarrow> 'w \<Rightarrow> bool) \<Rightarrow> bool" where
  "post_from m w0 Q = (\<forall>s r s'. world s = w0 \<and> m s = (r, s') \<longrightarrow>
     (\<exists>new lg. trace s' = trace s @ new \<and> logged s' = logged s @ lg \<and> Q r new lg (world s')))"

text \<open>
  More inputs for the in-memory runtime: a configuration in which nothing equals what a
  new bucket gets by itself, the cloud after creating a bucket with it, and a fault
  that only hits the signing call.
\<close>

definition custom_config :: storage_config where
  "custom_config =
     \<lparr> location = ''europe-west1'',
       default_storage_class = ''NEARLINE'',
       labels = [(''environment'', ''production'')],
       lifecycle_rules =
         [\<lparr> action = \<lparr> action_type = ''Delete'', storageClass = None \<rparr>,
             condition = \<lparr> age = 7, matchesStorageClass = None \<rparr> \<rparr>] \<rparr>"

definition custom_self :: "obj service_account_storage" where
  "custom_self = demo_self\<lparr>config := custom_config\<rparr>"

definition custom_cloud :: cloud where
  "custom_cloud =
     \<lparr> buckets = [(''demo'', \<lparr> meta_location = ''europe-west1'', meta_storage_class = ''NEARLINE'',
                               meta_labels = [(''environment'', ''production'')],
                               meta_lifecycle = lifecycle_rules custom_config \<rparr>)],
       blobs = [], staging = [] \<rparr>"

definition signing_fails :: "obj event \<Rightarrow> exn option" where
  "signing_fails ev =
     (case ev of BlobGenerateSignedUrl b v t m \<Rightarrow> Some (Exn ''403 Forbidden'') | _ \<Rightarrow> None)"

section \<open>Facts about the helpers\<close>

lemma postD:
  "post m Q \<Longrightarrow> m s = (r, s') \<Longrightarrow> Q r (new_calls s s') (new_logs s s') (world s')"
  unfolding post_def new_calls_def new_logs_def by fastforce

lemma post_returns: "(\<And>w. Q (Inr x) [] [] w) \<Longrightarrow> post (returns x) Q"
  by (simp add: post_def returns_def)

lemma post_raises: "(\<And>w. Q (Inl e) [] [] w) \<Longrightarrow> post (raises e) Q"
  by (simp add: post_def raises_def)

lemma post_logger_info: "(\<And>w. Q (Inr ()) [] [Info msg] w) \<Longrightarrow> post (logger_info msg) Q"
  by (auto simp: post_def logger_info_def)

lemma post_logger_error: "(\<And>w. Q (Inr ()) [] [Error msg] w) \<Longrightarrow> post (logger_error msg) Q"
  by (auto simp: post_def logger_error_def)

lemma post_reads: "(\<And>w. Q (Inr (f w)) [] [] w) \<Longrightarrow> post (reads f) Q"
  by (auto simp: post_def reads_def)

lemma post_call:
  assumes "\<And>e w w'. m w = (Inl e, w') \<Longrightarrow> Q (Inl e) [(ev, Raised e)] [] w'"
    and "\<And>x w w'. m w = (Inr x, w') \<Longrightarrow> Q (Inr x) [(ev, Returned (as_val x))] [] w'"
  shows "post (call ev as_val m) Q"
  using assms by (auto simp: post_def call_def split: prod.splits sum.splits)

lemma post_bind:
  assumes "post m (\<lambda>r new lg w. case r of Inl e \<Rightarrow> Q (Inl e) new lg w
             | Inr x \<Rightarrow> post (f x) (\<lambda>r2 new2 lg2 w2. Q r2 (new @ new2) (lg @ lg2) w2))"
  shows "post (bind m f) Q"
  unfolding post_def
proof (intro allI impI)
  fix s r s' assume run: "bind m f s = (r, s')"
  obtain r1 s1 where m: "m s = (r1, s1)" by (cases "m s")
  from assms m obtain new lg where 1: "trace s1 = trace s @ new" "logged s1 = logged s @ lg"
    and Q1: "case r1 of Inl e \<Rightarrow> Q (Inl e) new lg (world s1)
             | Inr x \<Rightarrow> post (f x) (\<lambda>r2 new2 lg2 w2. Q r2 (new @ new2) (lg @ lg2) w2)"
    unfolding post_def by blast
  show "\<exists>new lg. trace s' = trace s @ new \<and> logged s' = logged s @ lg \<and> Q r new lg (world s')"
  proof (cases r1)
    case (Inl e)
    with run m have "r = Inl e" "s' = s1" by (auto simp: bind_def)
    with 1 Q1 Inl show ?thesis by auto
  next
    case (Inr x)
    with run m have "f x s1 = (r, s')" by (auto simp: bind_def)
    with Q1 Inr obtain new2 lg2 where "trace s' = trace s1 @ new2" "logged s' = logged s1 @ lg2"
      "Q r (new @ new2) (lg @ lg2) (world s')"
      unfolding post_def by fastforce
    with 1 show ?thesis by auto
  qed
qed

lemma post_try_except:
  assumes "post m (\<lambda>r new lg w. case r of Inr x \<Rightarrow> Q (Inr x) new lg w
             | Inl e \<Rightarrow> post (h e) (\<lambda>r2 new2 lg2 w2. Q r2 (new @ new2) (lg @ lg2) w2))"
  shows "post (try_except m h) Q"
  unfolding post_def
proof (intro allI impI)
  fix s r s' assume run: "try_except m h s = (r, s')"
  obtain r1 s1 where m: "m s = (r1, s1)" by (cases "m s")
  from assms m obtain new lg where 1: "trace s1 = trace s @ new" "logged s1 = logged s @ lg"
    and Q1: "case r1 of Inr x \<Rightarrow> Q (Inr x) new lg (world s1)
             | Inl e \<Rightarrow> post (h e) (\<lambda>r2 new2 lg2 w2. Q r2 (new @ new2) (lg @ lg2) w2)"
    unfolding post_def by blast
  show "\<exists>new lg. trace s' = trace s @ new \<and> logged s' = logged s @ lg \<and> Q r new lg (world s')"
  proof (cases r1)
    case (Inr x)
    with run m have "r = Inr x" "s' = s1" by (auto simp: try_except_def)
    with 1 Q1 Inr show ?thesis by auto
  next
    case (Inl e)
    with run m have "h e s1 = (r, s')" by (auto simp: try_except_def)
    with Q1 Inl obtain new2 lg2 where "trace s' = trace s1 @ new2" "logged s' = logged s1 @ lg2"
      "Q r (new @ new2) (lg @ lg2) (world s')"
      unfolding post_def by fastforce
    with 1 show ?thesis by auto
  qed
qed

lemma post_if:
  "(b \<Longrightarrow> post m1 Q) \<Longrightarrow> (\<not> b \<Longrightarrow> post m2 Q) \<Longrightarrow> post (if b then m1 else m2) Q"
  by simp

lemmas post_intros = post_returns post_raises post_logger_info post_logger_error post_reads
  post_call post_bind post_try_except post_if

lemma split_from_nonempty: "split_from sep cur s \<noteq> []"
  by (induction s arbitrary: cur) auto

lemma last_split_from:
  "last (split_from sep cur s) =
     (if sep \<in> set s then rev (takeWhile (\<lambda>c. c \<noteq> sep) (rev s))
      else cur @ s)"
proof (induction s arbitrary: cur)
  case Nil
  then show ?case by simp
next
  case (Cons c cs)
  show ?case
  proof (cases "c = sep")
    case True
    then show ?thesis
      using Cons.IH [of "[]"] split_from_nonempty [of sep "[]" cs]
      by (auto simp: takeWhile_append)
  next
    case False
    then show ?thesis
      using Cons.IH [of "cur @ [c]"]
      by (auto simp: takeWhile_append)
  qed
qed

lemma goc_created:
  "post (get_or_create_bucket rt self n)
     (\<lambda>r new lg w. \<forall>b b0. r = Inr b \<and> (BucketExists b0, Returned (PBool False)) \<in> set new \<longrightarrow>
        new = creation_calls (client self) n b0 b (config self) \<and>
        lg = [Info (''Created new bucket: '' @ n @ '' in '' @ location (config self) @
                '' with storage class '' @ default_storage_class (config self))])"
  unfolding get_or_create_bucket_def
  by (rule post_intros | simp add: unit_val_def creation_calls_def | intro conjI impI allI)+

lemma goc_partial:
  "post (get_or_create_bucket rt self n)
     (\<lambda>r new lg w. \<forall>b loc v ev e.
        (BucketCreate b loc, Returned v) \<in> set new \<and> (ev, Raised e) \<in> set new \<longrightarrow>
        r = Inl e \<and> last new = (ev, Raised e) \<and>
        lg = [Error (''Error with bucket '' @ n @ '': '' @ str e)] \<and>
        ev \<in> {BucketSetStorageClass b (default_storage_class (config self)),
              BucketSetLabels b (labels (config self)),
              BucketPatch b,
              BucketSetLifecycleRules b (lifecycle_rules (config self))} \<and>
        (\<exists>b0. prefix (butlast new) (creation_calls (client self) n b0 b (config self))) \<and>
        length new \<le> 9)"
  unfolding get_or_create_bucket_def
  by (rule post_intros | simp add: unit_val_def creation_calls_def | intro conjI impI allI)+

lemma goc_location:
  "post (get_or_create_bucket rt self n)
     (\<lambda>r new lg w.
        (\<forall>b l out. (BucketCreate b l, out) \<in> set new \<longrightarrow> l = location (config self)) \<and>
        (3 < length new \<longrightarrow> (\<exists>b. fst (new ! 3) = BucketCreate b (location (config self)))))"
  unfolding get_or_create_bucket_def
  by (rule post_intros | simp add: unit_val_def | intro conjI impI allI)+

lemma create_bucket_one_call:
  "post (create_bucket rt self n loc)
     (\<lambda>r new lg w. \<exists>out. new = [(ClientCreateBucket (client self) n
           (case loc of None \<Rightarrow> ''US'' | Some l \<Rightarrow> l), out)] \<and>
        (case r of Inl e \<Rightarrow> out = Raised e \<and>
                     lg = [Error (''Failed to create bucket '' @ n @ '': '' @ str e)]
         | Inr b \<Rightarrow> out = Returned (PObj b) \<and> lg = [Info (''Created bucket '' @ n)]))"
  unfolding create_bucket_def Let_def
  by (rule post_intros | simp | intro conjI impI allI)+

lemmas prog_defs = try_except_def bind_def call_def returns_def raises_def logger_info_def
  logger_error_def reads_def unit_val_def

lemmas mem_defs = mem_runtime_def guarded_def on_bucket_def on_blob_def new_bucket_def stage_def
  put_def staged_of_def no_staged_def apply_staged_def no_fault_def patch_fails_def
  every_call_fails_def demo_self_def start_def empty_cloud_def

lemma self_facts:
  "client demo_self = OClient" "config demo_self = default_config"
  "location default_config = ''asia-south1''" "default_storage_class default_config = ''STANDARD''"
  by (simp_all add: demo_self_def default_config_def)

lemma run_create:
  "get_or_create_bucket (mem_runtime no_fault) demo_self ''demo'' (start empty_cloud) =
     (Inr (OBucket ''demo''),
      \<lparr> world = configured_cloud,
        logged = [Info ''Created new bucket: demo in asia-south1 with storage class STANDARD''],
        trace = creation_calls OClient ''demo'' (OBucket ''demo'') (OBucket ''demo'') default_config \<rparr>)"
  by (simp add: get_or_create_bucket_def prog_defs mem_defs configured_cloud_def
      creation_calls_def default_config_def)

lemma run_patch_fails:
  "get_or_create_bucket (mem_runtime patch_fails) demo_self ''demo'' (start empty_cloud) =
     (Inl (Exn ''503 Service Unavailable''),
      \<lparr> world = unconfigured_cloud,
        logged = [Error ''Error with bucket demo: 503 Service Unavailable''],
        trace = take 6 (creation_calls OClient ''demo'' (OBucket ''demo'') (OBucket ''demo'')
                          default_config) @
                [(BucketPatch (OBucket ''demo''), Raised (Exn ''503 Service Unavailable''))] \<rparr>)"
  by (simp add: get_or_create_bucket_def prog_defs mem_defs unconfigured_cloud_def
      creation_calls_def default_config_def)

lemma start_simps:
  "world (start w) = w" "logged (start w) = []" "trace (start w) = []"
  by (simp_all add: start_def)

lemma storage_config_location:
  "STORAGE_CONFIG py_int environ = Inr cfg \<Longrightarrow>
   location cfg = getenv environ ''GCS_LOCATION'' ''asia-south1''"
  by (auto simp: STORAGE_CONFIG_def split: sum.splits)

lemma storage_config_default: "STORAGE_CONFIG decimal_int Map.empty = Inr default_config"
  by (simp add: STORAGE_CONFIG_def getenv_int_def getenv_def default_config_def)

lemma run_create_bucket_default:
  "create_bucket (mem_runtime no_fault) demo_self ''demo'' None (start empty_cloud) =
     (Inr (OBucket ''demo''),
      \<lparr> world = \<lparr> buckets = [(''demo'', \<lparr> meta_location = ''US'', meta_storage_class = ''STANDARD'',
                                         meta_labels = [], meta_lifecycle = [] \<rparr>)],
                  blobs = [], staging = [] \<rparr>,
        logged = [Info ''Created bucket demo''],
        trace = [(ClientCreateBucket OClient ''demo'' ''US'', Returned (PObj (OBucket ''demo'')))] \<rparr>)"
  by (simp add: create_bucket_def Let_def prog_defs mem_defs)

lemma last_py_split:
  "last (py_split p sep) = rev (takeWhile (\<lambda>c. c \<noteq> sep) (rev p))"
proof (cases "sep \<in> set p")
  case True
  then show ?thesis by (simp add: py_split_def last_split_from)
next
  case False
  then have tw: "takeWhile (\<lambda>c. c \<noteq> sep) (rev p) = rev p"
    by (auto simp: takeWhile_eq_all_conv)
  from False show ?thesis
    by (simp add: py_split_def last_split_from) (simp only: tw rev_rev_ident)
qed

lemma post_bind_reads_returns:
  "(\<And>w. Q (Inr (h (f w))) [] [] w) \<Longrightarrow> post (bind (reads f) (\<lambda>x. returns (h x))) Q"
  by (auto simp: post_def bind_def reads_def returns_def)

lemmas post_rules = post_bind_reads_returns post_intros

lemma get_signed_url_post:
  "post (get_signed_url rt self bucket_name blob_name_arg)
     (\<lambda>r new lg w.
        (\<exists>v. r = Inr v) \<and>
        (\<forall>url. r = Inr (Some url) \<longrightarrow>
           (\<exists>bucket blob. new =
              [(ClientBucket (client self) bucket_name, Returned (PObj bucket)),
               (BucketBlob bucket blob_name_arg, Returned (PObj blob)),
               (BlobGenerateSignedUrl blob ''v4'' (Timedelta (15 * 60)) ''GET'',
                Returned (PStr url))]) \<and> lg = []) \<and>
        (r = Inr None \<longrightarrow>
           (\<exists>ev e. new \<noteq> [] \<and> last new = (ev, Raised e) \<and>
              lg = [Error (''Failed to generate signed URL: '' @ str e)])) \<and>
        (\<forall>ev e. (ev, Raised e) \<in> set new \<longrightarrow> r = Inr None) \<and>
        (\<forall>blob v t m out. (BlobGenerateSignedUrl blob v t m, out) \<in> set new \<longrightarrow>
           v = ''v4'' \<and> total_seconds t = 15 * 60 \<and> m = ''GET''))"
  unfolding get_signed_url_def
  by (rule post_intros | simp add: timedelta_minutes_def | intro conjI impI allI)+

lemma upload_file_post:
  "post (upload_file rt self bucket_name file_path)
     (\<lambda>r new lg w. \<forall>name. r = Inr (Some name) \<longrightarrow>
        (\<exists>bucket blob w1 w2.
           bucket_blob rt bucket (last (py_split file_path CHR ''/'')) w1 = (Inr blob, w2) \<and>
           drop (length new - 2) new =
             [(BucketBlob bucket (last (py_split file_path CHR ''/'')), Returned (PObj blob)),
              (BlobUploadFromFilename blob file_path, Returned PNone)] \<and>
           name = blob_name rt blob w))"
  unfolding upload_file_def get_or_create_bucket_def
  by (rule post_rules | simp add: unit_val_def | intro conjI impI allI | blast)+

lemma mem_runtime_blob_named: "blob_named_at_creation (mem_runtime fault)"
  by (auto simp: blob_named_at_creation_def mem_runtime_def guarded_def on_bucket_def
      split: obj.splits option.splits)

lemma run_upload:
  "upload_file (mem_runtime no_fault) demo_self ''demo'' ''reports/summary.txt''
     (start configured_cloud) =
     (Inr (Some ''summary.txt''),
      \<lparr> world = configured_cloud\<lparr>blobs := [(''demo'', ''summary.txt'')]\<rparr>,
        logged = [Info ''Using existing bucket: demo'',
                  Info ''Successfully uploaded reports/summary.txt to demo''],
        trace = [(ClientBucket OClient ''demo'', Returned (PObj (OBucket ''demo''))),
                 (BucketExists (OBucket ''demo''), Returned (PBool True)),
                 (BucketBlob (OBucket ''demo'') ''summary.txt'',
                  Returned (PObj (OBlob ''demo'' ''summary.txt''))),
                 (BlobUploadFromFilename (OBlob ''demo'' ''summary.txt'')
                    ''reports/summary.txt'', Returned PNone)] \<rparr>)"
  by (simp add: upload_file_def get_or_create_bucket_def prog_defs mem_defs configured_cloud_def
      py_split_def)

lemma run_upload_other:
  "fst (upload_file (mem_runtime no_fault) demo_self ''demo'' ''drafts/summary.txt''
     (start configured_cloud)) = Inr (Some ''summary.txt'')"
  by (simp add: upload_file_def get_or_create_bucket_def prog_defs mem_defs configured_cloud_def
      py_split_def)

lemma run_signed_url:
  "get_signed_url (mem_runtime no_fault) demo_self ''demo'' ''summary.txt'' (start empty_cloud) =
     (Inr (Some ''https://storage.googleapis.com/demo/summary.txt?X-Goog-Signature=0''),
      \<lparr> world = empty_cloud, logged = [],
        trace = [(ClientBucket OClient ''demo'', Returned (PObj (OBucket ''demo''))),
                 (BucketBlob (OBucket ''demo'') ''summary.txt'',
                  Returned (PObj (OBlob ''demo'' ''summary.txt''))),
                 (BlobGenerateSignedUrl (OBlob ''demo'' ''summary.txt'') ''v4'' (Timedelta 900)
                    ''GET'',
                  Returned (PStr
                    ''https://storage.googleapis.com/demo/summary.txt?X-Goog-Signature=0''))] \<rparr>)"
  by (simp add: get_signed_url_def prog_defs mem_defs timedelta_minutes_def)

lemma run_signed_url_fails:
  "get_signed_url (mem_runtime every_call_fails) demo_self ''demo'' ''summary.txt''
     (start empty_cloud) =
     (Inr None,
      \<lparr> world = empty_cloud,
        logged = [Error ''Failed to generate signed URL: 503 Service Unavailable''],
        trace = [(ClientBucket OClient ''demo'', Raised (Exn ''503 Service Unavailable''))] \<rparr>)"
  by (simp add: get_signed_url_def prog_defs mem_defs)

lemma post_as_pyval:
  assumes "post m (\<lambda>r new lg w. case r of Inl e \<Rightarrow> Q (Inl e) new lg w
                                   | Inr x \<Rightarrow> Q (Inr (f x)) new lg w)"
  shows "post (as_pyval f m) Q"
  unfolding post_def
proof (intro allI impI)
  fix s r s' assume run: "as_pyval f m s = (r, s')"
  obtain r1 s1 where m: "m s = (r1, s1)" by (cases "m s")
  from assms m obtain new lg where 1: "trace s1 = trace s @ new" "logged s1 = logged s @ lg"
    and Q1: "case r1 of Inl e \<Rightarrow> Q (Inl e) new lg (world s1)
             | Inr x \<Rightarrow> Q (Inr (f x)) new lg (world s1)"
    unfolding post_def by blast
  from run m have "s' = s1" "r = (case r1 of Inl e \<Rightarrow> Inl e | Inr x \<Rightarrow> Inr (f x))"
    by (auto simp: as_pyval_def split: sum.splits)
  with 1 Q1 show "\<exists>new lg. trace s' = trace s @ new \<and> logged s' = logged s @ lg \<and>
      Q r new lg (world s')"
    by (cases r1) auto
qed

lemma invoke_error_post:
  "post (invoke rt self mc)
     (\<lambda>r new lg w. \<forall>ev e. (ev, Raised e) \<in> set new \<longrightarrow>
        last new = (ev, Raised e) \<and> lg \<noteq> [] \<and> logs_error e (last lg) \<and>
        r = (if reraises mc then Inl e else Inr (default_value mc)))"
proof (cases mc)
  case (GetBucket n)
  show ?thesis
    unfolding GetBucket invoke.simps get_bucket_def
    by (rule post_as_pyval post_rules | simp add: suffixI | intro conjI impI allI)+
next
  case (CreateBucket n loc)
  show ?thesis
    unfolding CreateBucket invoke.simps create_bucket_def Let_def
    by (rule post_as_pyval post_rules | simp add: suffixI | intro conjI impI allI)+
next
  case (GetOrCreateBucket n)
  show ?thesis
    unfolding GetOrCreateBucket invoke.simps get_or_create_bucket_def
    by (rule post_as_pyval post_rules | simp add: suffixI | intro conjI impI allI)+
next
  case (UploadFile n p)
  show ?thesis
    unfolding UploadFile invoke.simps upload_file_def get_or_create_bucket_def
    by (rule post_as_pyval post_rules | simp add: suffixI opt_str_def | intro conjI impI allI)+
next
  case (DownloadFile n b d)
  show ?thesis
    unfolding DownloadFile invoke.simps download_file_def get_bucket_def
    by (rule post_as_pyval post_rules | simp add: suffixI | intro conjI impI allI)+
next
  case (DeleteFile n b)
  show ?thesis
    unfolding DeleteFile invoke.simps delete_file_def get_bucket_def
    by (rule post_as_pyval post_rules | simp add: suffixI | intro conjI impI allI)+
next
  case (ListFiles n)
  show ?thesis
    unfolding ListFiles invoke.simps list_files_def
    by (rule post_as_pyval post_rules | simp add: suffixI | intro conjI impI allI)+
next
  case (GetSignedUrl n b)
  show ?thesis
    unfolding GetSignedUrl invoke.simps get_signed_url_def
    by (rule post_as_pyval post_rules | simp add: suffixI opt_str_def | intro conjI impI allI)+
qed



lemma invoke_calls_post:
  "post (invoke rt self mc)
     (\<lambda>r new lg w. new \<noteq> [] \<and>
        (\<forall>ev. forwarded_call self mc = Some ev \<longrightarrow>
           (\<exists>out. new = [(ev, out)] \<and>
              (case out of Raised e \<Rightarrow> r = Inl e | Returned v \<Rightarrow> r = Inr v)) \<and>
           length lg \<le> 1) \<and>
        (forwarded_call self mc = None \<and> (\<exists>v. snd (hd new) = Returned v) \<longrightarrow>
           2 \<le> length new))"
proof (cases mc)
  case (GetBucket n)
  show ?thesis
    unfolding GetBucket invoke.simps get_bucket_def
    by (rule post_as_pyval post_rules | simp | intro conjI impI allI)+
next
  case (CreateBucket n loc)
  show ?thesis
    unfolding CreateBucket invoke.simps create_bucket_def Let_def
    by (rule post_as_pyval post_rules | simp | intro conjI impI allI)+
next
  case (GetOrCreateBucket n)
  show ?thesis
    unfolding GetOrCreateBucket invoke.simps get_or_create_bucket_def
    by (rule post_as_pyval post_rules | simp | intro conjI impI allI)+
next
  case (UploadFile n p)
  show ?thesis
    unfolding UploadFile invoke.simps upload_file_def get_or_create_bucket_def
    by (rule post_as_pyval post_rules | simp | intro conjI impI allI)+
next
  case (DownloadFile n b d)
  show ?thesis
    unfolding DownloadFile invoke.simps download_file_def get_bucket_def
    by (rule post_as_pyval post_rules | simp | intro conjI impI allI)+
next
  case (DeleteFile n b)
  show ?thesis
    unfolding DeleteFile invoke.simps delete_file_def get_bucket_def
    by (rule post_as_pyval post_rules | simp | intro conjI impI allI)+
next
  case (ListFiles n)
  show ?thesis
    unfolding ListFiles invoke.simps list_files_def
    by (rule post_as_pyval post_rules | simp | intro conjI impI allI)+
next
  case (GetSignedUrl n b)
  show ?thesis
    unfolding GetSignedUrl invoke.simps get_signed_url_def
    by (rule post_as_pyval post_rules | simp | intro conjI impI allI)+
qed


lemmas method_defs = get_bucket_def create_bucket_def get_or_create_bucket_def upload_file_def
  download_file_def delete_file_def list_files_def get_signed_url_def as_pyval_def opt_str_def
  Let_def

lemma run_get_bucket_fails:
  "invoke (mem_runtime every_call_fails) demo_self (GetBucket ''demo'') (start empty_cloud) =
     (Inl (Exn ''503 Service Unavailable''),
      \<lparr> world = empty_cloud,
        logged = [Error ''Failed to get bucket demo: 503 Service Unavailable''],
        trace = [(ClientGetBucket OClient ''demo'', Raised (Exn ''503 Service Unavailable''))] \<rparr>)"
  by (simp add: method_defs prog_defs mem_defs)

lemma run_list_files_fails:
  "invoke (mem_runtime every_call_fails) demo_self (ListFiles ''demo'') (start empty_cloud) =
     (Inr (PStrs []),
      \<lparr> world = empty_cloud,
        logged = [Error ''Failed to list files: 503 Service Unavailable''],
        trace = [(ClientBucket OClient ''demo'', Raised (Exn ''503 Service Unavailable''))] \<rparr>)"
  by (simp add: method_defs prog_defs mem_defs)

lemma run_invoke_create:
  "invoke (mem_runtime no_fault) demo_self (GetOrCreateBucket ''demo'') (start empty_cloud) =
     (Inr (PObj (OBucket ''demo'')),
      \<lparr> world = configured_cloud,
        logged = [Info ''Created new bucket: demo in asia-south1 with storage class STANDARD''],
        trace = creation_calls OClient ''demo'' (OBucket ''demo'') (OBucket ''demo'') default_config \<rparr>)"
  by (simp add: as_pyval_def run_create)

lemma run_invoke_get_bucket:
  "invoke (mem_runtime no_fault) demo_self (GetBucket ''demo'') (start configured_cloud) =
     (Inr (PObj (OBucket ''demo'')),
      \<lparr> world = configured_cloud, logged = [],
        trace = [(ClientGetBucket OClient ''demo'', Returned (PObj (OBucket ''demo'')))] \<rparr>)"
  by (simp add: method_defs prog_defs mem_defs configured_cloud_def)


lemma post_fromD:
  "post_from m (world s) Q \<Longrightarrow> m s = (r, s') \<Longrightarrow>
   Q r (new_calls s s') (new_logs s s') (world s')"
  unfolding post_from_def new_calls_def new_logs_def by fastforce

lemma pf_returns: "Q (Inr x) [] [] w0 \<Longrightarrow> post_from (returns x) w0 Q"
  by (auto simp: post_from_def returns_def)

lemma pf_raises: "Q (Inl e) [] [] w0 \<Longrightarrow> post_from (raises e) w0 Q"
  by (auto simp: post_from_def raises_def)

lemma pf_logger_info: "Q (Inr ()) [] [Info msg] w0 \<Longrightarrow> post_from (logger_info msg) w0 Q"
  by (auto simp: post_from_def logger_info_def)

lemma pf_logger_error: "Q (Inr ()) [] [Error msg] w0 \<Longrightarrow> post_from (logger_error msg) w0 Q"
  by (auto simp: post_from_def logger_error_def)

lemma pf_reads: "Q (Inr (f w0)) [] [] w0 \<Longrightarrow> post_from (reads f) w0 Q"
  by (auto simp: post_from_def reads_def)

lemma pf_call:
  assumes "\<And>e w'. m w0 = (Inl e, w') \<Longrightarrow> Q (Inl e) [(ev, Raised e)] [] w'"
    and "\<And>x w'. m w0 = (Inr x, w') \<Longrightarrow> Q (Inr x) [(ev, Returned (as_val x))] [] w'"
  shows "post_from (call ev as_val m) w0 Q"
  using assms by (auto simp: post_from_def call_def split: prod.splits sum.splits)

lemma pf_bind:
  assumes "post_from m w0 (\<lambda>r new lg w1. case r of Inl e \<Rightarrow> Q (Inl e) new lg w1
             | Inr x \<Rightarrow> post_from (f x) w1 (\<lambda>r2 new2 lg2 w2. Q r2 (new @ new2) (lg @ lg2) w2))"
  shows "post_from (bind m f) w0 Q"
  unfolding post_from_def
proof (intro allI impI)
  fix s r s' assume "world s = w0 \<and> bind m f s = (r, s')"
  then have w: "world s = w0" and run: "bind m f s = (r, s')" by auto
  obtain r1 s1 where m: "m s = (r1, s1)" by (cases "m s")
  from assms w m obtain new lg where 1: "trace s1 = trace s @ new" "logged s1 = logged s @ lg"
    and Q1: "case r1 of Inl e \<Rightarrow> Q (Inl e) new lg (world s1)
             | Inr x \<Rightarrow> post_from (f x) (world s1)
                 (\<lambda>r2 new2 lg2 w2. Q r2 (new @ new2) (lg @ lg2) w2)"
    unfolding post_from_def by blast
  show "\<exists>new lg. trace s' = trace s @ new \<and> logged s' = logged s @ lg \<and> Q r new lg (world s')"
  proof (cases r1)
    case (Inl e)
    with run m have "r = Inl e" "s' = s1" by (auto simp: bind_def)
    with 1 Q1 Inl show ?thesis by auto
  next
    case (Inr x)
    with run m have "f x s1 = (r, s')" by (auto simp: bind_def)
    with Q1 Inr obtain new2 lg2 where "trace s' = trace s1 @ new2" "logged s' = logged s1 @ lg2"
      "Q r (new @ new2) (lg @ lg2) (world s')"
      unfolding post_from_def by fastforce
    with 1 show ?thesis by auto
  qed
qed

lemma pf_try_except:
  assumes "post_from m w0 (\<lambda>r new lg w1. case r of Inr x \<Rightarrow> Q (Inr x) new lg w1
             | Inl e \<Rightarrow> post_from (h e) w1 (\<lambda>r2 new2 lg2 w2. Q r2 (new @ new2) (lg @ lg2) w2))"
  shows "post_from (try_except m h) w0 Q"
  unfolding post_from_def
proof (intro allI impI)
  fix s r s' assume "world s = w0 \<and> try_except m h s = (r, s')"
  then have w: "world s = w0" and run: "try_except m h s = (r, s')" by auto
  obtain r1 s1 where m: "m s = (r1, s1)" by (cases "m s")
  from assms w m obtain new lg where 1: "trace s1 = trace s @ new" "logged s1 = logged s @ lg"
    and Q1: "case r1 of Inr x \<Rightarrow> Q (Inr x) new lg (world s1)
             | Inl e \<Rightarrow> post_from (h e) (world s1)
                 (\<lambda>r2 new2 lg2 w2. Q r2 (new @ new2) (lg @ lg2) w2)"
    unfolding post_from_def by blast
  show "\<exists>new lg. trace s' = trace s @ new \<and> logged s' = logged s @ lg \<and> Q r new lg (world s')"
  proof (cases r1)
    case (Inr x)
    with run m have "r = Inr x" "s' = s1" by (auto simp: try_except_def)
    with 1 Q1 Inr show ?thesis by auto
  next
    case (Inl e)
    with run m have "h e s1 = (r, s')" by (auto simp: try_except_def)
    with Q1 Inl obtain new2 lg2 where "trace s' = trace s1 @ new2" "logged s' = logged s1 @ lg2"
      "Q r (new @ new2) (lg @ lg2) (world s')"
      unfolding post_from_def by fastforce
    with 1 show ?thesis by auto
  qed
qed

lemma pf_if:
  "(b \<Longrightarrow> post_from m1 w0 Q) \<Longrightarrow> (\<not> b \<Longrightarrow> post_from m2 w0 Q) \<Longrightarrow>
   post_from (if b then m1 else m2) w0 Q"
  by simp

lemma pf_as_pyval:
  assumes "post_from m w0 (\<lambda>r new lg w. case r of Inl e \<Rightarrow> Q (Inl e) new lg w
                                   | Inr x \<Rightarrow> Q (Inr (f x)) new lg w)"
  shows "post_from (as_pyval f m) w0 Q"
  unfolding post_from_def
proof (intro allI impI)
  fix s r s' assume "world s = w0 \<and> as_pyval f m s = (r, s')"
  then have w: "world s = w0" and run: "as_pyval f m s = (r, s')" by auto
  obtain r1 s1 where m: "m s = (r1, s1)" by (cases "m s")
  from assms w m obtain new lg where 1: "trace s1 = trace s @ new" "logged s1 = logged s @ lg"
    and Q1: "case r1 of Inl e \<Rightarrow> Q (Inl e) new lg (world s1)
             | Inr x \<Rightarrow> Q (Inr (f x)) new lg (world s1)"
    unfolding post_from_def by blast
  from run m have "s' = s1" "r = (case r1 of Inl e \<Rightarrow> Inl e | Inr x \<Rightarrow> Inr (f x))"
    by (auto simp: as_pyval_def split: sum.splits)
  with 1 Q1 show "\<exists>new lg. trace s' = trace s @ new \<and> logged s' = logged s @ lg \<and>
      Q r new lg (world s')"
    by (cases r1) auto
qed

lemmas pf_rules = pf_returns pf_raises pf_logger_info pf_logger_error pf_reads pf_call pf_bind
  pf_try_except pf_if pf_as_pyval

lemma goc_created_runs:
  "post_from (get_or_create_bucket rt self n) w0
     (\<lambda>r new lg w. \<forall>b b0. r = Inr b \<and> (BucketExists b0, Returned (PBool False)) \<in> set new \<longrightarrow>
        (\<exists>w1 w2 w3 w4 w5 w6 w7 w8.
           client_bucket rt (client self) n w0 = (Inr b0, w1) \<and>
           bucket_exists rt b0 w1 = (Inr False, w2) \<and>
           client_bucket rt (client self) n w2 = (Inr b, w3) \<and>
           bucket_create rt b (location (config self)) w3 = (Inr (), w4) \<and>
           bucket_set_storage_class rt b (default_storage_class (config self)) w4 = (Inr (), w5) \<and>
           bucket_set_labels rt b (labels (config self)) w5 = (Inr (), w6) \<and>
           bucket_patch rt b w6 = (Inr (), w7) \<and>
           bucket_set_lifecycle_rules rt b (lifecycle_rules (config self)) w7 = (Inr (), w8) \<and>
           bucket_patch rt b w8 = (Inr (), w)))"
  unfolding get_or_create_bucket_def
  by (rule pf_rules | simp add: unit_val_def | intro conjI impI allI)+

lemma run_create_custom:
  "get_or_create_bucket (mem_runtime no_fault) custom_self ''demo'' (start empty_cloud) =
     (Inr (OBucket ''demo''),
      \<lparr> world = custom_cloud,
        logged = [Info ''Created new bucket: demo in europe-west1 with storage class NEARLINE''],
        trace = creation_calls OClient ''demo'' (OBucket ''demo'') (OBucket ''demo'') custom_config \<rparr>)"
  by (simp add: get_or_create_bucket_def prog_defs mem_defs custom_cloud_def custom_self_def
      creation_calls_def custom_config_def)

lemma get_signed_url_runs:
  "post_from (get_signed_url rt self bucket_name blob_name_arg) w0
     (\<lambda>r new lg w.
        replays rt w0 new w \<and>
        (\<forall>url. r = Inr (Some url) \<longrightarrow>
           (\<exists>bucket blob w1 w2.
              client_bucket rt (client self) bucket_name w0 = (Inr bucket, w1) \<and>
              bucket_blob rt bucket blob_name_arg w1 = (Inr blob, w2) \<and>
              blob_generate_signed_url rt blob ''v4'' (timedelta_minutes 15) ''GET'' w2 =
                (Inr url, w))) \<and>
        (\<forall>bucket blob w1 w2 res w3.
           client_bucket rt (client self) bucket_name w0 = (Inr bucket, w1) \<and>
           bucket_blob rt bucket blob_name_arg w1 = (Inr blob, w2) \<and>
           blob_generate_signed_url rt blob ''v4'' (timedelta_minutes 15) ''GET'' w2 = (res, w3)
           \<longrightarrow> r = (case res of Inl e \<Rightarrow> Inr None | Inr url \<Rightarrow> Inr (Some url)) \<and> w = w3))"
  unfolding get_signed_url_def
  by (rule pf_rules | simp add: recorded_def | intro conjI impI allI)+

lemma create_bucket_runs:
  "post_from (create_bucket rt self n loc) w0
     (\<lambda>r new lg w.
        r = fst (client_create_bucket rt (client self) n
                   (case loc of None \<Rightarrow> ''US'' | Some l \<Rightarrow> l) w0) \<and>
        w = snd (client_create_bucket rt (client self) n
                   (case loc of None \<Rightarrow> ''US'' | Some l \<Rightarrow> l) w0) \<and>
        replays rt w0 new w)"
  unfolding create_bucket_def Let_def
  by (rule pf_rules | simp add: recorded_def | intro conjI impI allI)+

lemma goc_fourth_call:
  "post_from (get_or_create_bucket rt self n) w0
     (\<lambda>r new lg w.
        replays rt w0 new w \<and>
        (\<forall>b0 w1 w2 b w3.
           client_bucket rt (client self) n w0 = (Inr b0, w1) \<and>
           bucket_exists rt b0 w1 = (Inr False, w2) \<and>
           client_bucket rt (client self) n w2 = (Inr b, w3) \<longrightarrow>
           take 4 new =
             [(ClientBucket (client self) n, Returned (PObj b0)),
              (BucketExists b0, Returned (PBool False)),
              (ClientBucket (client self) n, Returned (PObj b)),
              (BucketCreate b (location (config self)),
               (case fst (bucket_create rt b (location (config self)) w3) of
                  Inl e \<Rightarrow> Raised e | Inr u \<Rightarrow> Returned PNone))]))"
  unfolding get_or_create_bucket_def
  by (rule pf_rules | simp add: recorded_def unit_val_def | intro conjI impI allI)+

lemma invoke_runs:
  "post_from (invoke rt self mc) w0
     (\<lambda>r new lg w.
        replays rt w0 new w \<and>
        (\<forall>n. mc = GetBucket n \<longrightarrow>
           r = map_sum id PObj (fst (client_get_bucket rt (client self) n w0)) \<and>
           w = snd (client_get_bucket rt (client self) n w0)) \<and>
        (\<forall>n loc. mc = CreateBucket n loc \<longrightarrow>
           r = map_sum id PObj (fst (client_create_bucket rt (client self) n
                   (case loc of None \<Rightarrow> ''US'' | Some l \<Rightarrow> l) w0)) \<and>
           w = snd (client_create_bucket rt (client self) n
                   (case loc of None \<Rightarrow> ''US'' | Some l \<Rightarrow> l) w0)))"
proof (cases mc)
  case (GetBucket n)
  show ?thesis
    unfolding GetBucket invoke.simps get_bucket_def
    by (rule pf_rules | simp add: recorded_def unit_val_def | intro conjI impI allI)+
next
  case (CreateBucket n loc)
  show ?thesis
    unfolding CreateBucket invoke.simps create_bucket_def Let_def
    by (rule pf_rules | simp add: recorded_def unit_val_def | intro conjI impI allI)+
next
  case (GetOrCreateBucket n)
  show ?thesis
    unfolding GetOrCreateBucket invoke.simps get_or_create_bucket_def
    by (rule pf_rules | simp add: recorded_def unit_val_def | intro conjI impI allI)+
next
  case (UploadFile n p)
  show ?thesis
    unfolding UploadFile invoke.simps upload_file_def get_or_create_bucket_def
    by (rule pf_rules | simp add: recorded_def unit_val_def | intro conjI impI allI)+
next
  case (DownloadFile n b d)
  show ?thesis
    unfolding DownloadFile invoke.simps download_file_def get_bucket_def
    by (rule pf_rules | simp add: recorded_def unit_val_def | intro conjI impI allI)+
next
  case (DeleteFile n b)
  show ?thesis
    unfolding DeleteFile invoke.simps delete_file_def get_bucket_def
    by (rule pf_rules | simp add: recorded_def unit_val_def | intro conjI impI allI)+
next
  case (ListFiles n)
  show ?thesis
    unfolding ListFiles invoke.simps list_files_def
    by (rule pf_rules | simp add: recorded_def unit_val_def | intro conjI impI allI)+
next
  case (GetSignedUrl n b)
  show ?thesis
    unfolding GetSignedUrl invoke.simps get_signed_url_def
    by (rule pf_rules | simp add: recorded_def unit_val_def | intro conjI impI allI)+
qed

lemma run_signing_fails:
  "get_signed_url (mem_runtime signing_fails) demo_self ''demo'' ''summary.txt''
     (start empty_cloud) =
     (Inr None,
      \<lparr> world = empty_cloud,
        logged = [Error ''Failed to generate signed URL: 403 Forbidden''],
        trace = [(ClientBucket OClient ''demo'', Returned (PObj (OBucket ''demo''))),
                 (BucketBlob (OBucket ''demo'') ''summary.txt'',
                  Returned (PObj (OBlob ''demo'' ''summary.txt''))),
                 (BlobGenerateSignedUrl (OBlob ''demo'' ''summary.txt'') ''v4'' (Timedelta 900)
                    ''GET'', Raised (Exn ''403 Forbidden''))] \<rparr>)"
  by (simp add: get_signed_url_def prog_defs mem_defs signing_fails_def timedelta_minutes_def)

lemma run_invoke_create_bucket:
  "invoke (mem_runtime no_fault) demo_self (CreateBucket ''demo'' None) (start empty_cloud) =
     (Inr (PObj (OBucket ''demo'')),
      \<lparr> world = \<lparr> buckets = [(''demo'', \<lparr> meta_location = ''US'', meta_storage_class = ''STANDARD'',
                                         meta_labels = [], meta_lifecycle = [] \<rparr>)],
                  blobs = [], staging = [] \<rparr>,
        logged = [Info ''Created bucket demo''],
        trace = [(ClientCreateBucket OClient ''demo'' ''US'', Returned (PObj (OBucket ''demo'')))] \<rparr>)"
  by (simp add: as_pyval_def run_create_bucket_default)

section \<open>The claims\<close>



text \<open>
  C3. If the bucket already exists (\<open>client.bucket\<close> hands out the object and
  \<open>bucket.exists()\<close> answers \<open>True\<close>, neither changing the world),
  \<open>get_or_create_bucket\<close> returns that bucket, its only calls are those two (no create, no
  property assignment, no patch), and the world is left as it was. A second call then
  does the same again: it returns the same bucket, makes the same two calls and leaves
  the world unchanged, so calling twice has the effect of calling once.
\<close>

theorem get_or_create_bucket_existing_idempotent:
  assumes "client_bucket rt (client self) n (world s) = (Inr b, world s)"
    and "bucket_exists rt b (world s) = (Inr True, world s)"
  shows "get_or_create_bucket rt self n s =
           (Inr b, s\<lparr>logged := logged s @ [Info (''Using existing bucket: '' @ n)],
                     trace := trace s @ [(ClientBucket (client self) n, Returned (PObj b)),
                                         (BucketExists b, Returned (PBool True))]\<rparr>) \<and>
         fst (get_or_create_bucket rt self n (snd (get_or_create_bucket rt self n s))) = Inr b \<and>
         world (snd (get_or_create_bucket rt self n (snd (get_or_create_bucket rt self n s))))
           = world s \<and>
         new_calls (snd (get_or_create_bucket rt self n s))
            (snd (get_or_create_bucket rt self n (snd (get_or_create_bucket rt self n s))))
           = [(ClientBucket (client self) n, Returned (PObj b)),
              (BucketExists b, Returned (PBool True))]"
proof -
  have once: "\<And>t. world t = world s \<Longrightarrow> get_or_create_bucket rt self n t =
           (Inr b, t\<lparr>logged := logged t @ [Info (''Using existing bucket: '' @ n)],
                     trace := trace t @ [(ClientBucket (client self) n, Returned (PObj b)),
                                         (BucketExists b, Returned (PBool True))]\<rparr>)"
    using assms
    by (simp add: get_or_create_bucket_def try_except_def bind_def call_def returns_def
        logger_info_def)
  show ?thesis
    by (simp add: once new_calls_def)
qed

theorem get_or_create_bucket_existing_idempotent_witness:
  "get_or_create_bucket (mem_runtime no_fault) demo_self ''demo'' (start configured_cloud) =
     (Inr (OBucket ''demo''),
      (start configured_cloud)
        \<lparr> logged := [Info ''Using existing bucket: demo''],
          trace := [(ClientBucket OClient ''demo'', Returned (PObj (OBucket ''demo''))),
                    (BucketExists (OBucket ''demo''), Returned (PBool True))] \<rparr>) \<and>
   world (snd (get_or_create_bucket (mem_runtime no_fault) demo_self ''demo''
     (snd (get_or_create_bucket (mem_runtime no_fault) demo_self ''demo''
        (start configured_cloud))))) = configured_cloud"
proof -
  have 1: "client_bucket (mem_runtime no_fault) (client demo_self) ''demo''
             (world (start configured_cloud)) =
           (Inr (OBucket ''demo''), world (start configured_cloud))"
    by (simp add: mem_defs configured_cloud_def)
  have 2: "bucket_exists (mem_runtime no_fault) (OBucket ''demo'')
             (world (start configured_cloud)) = (Inr True, world (start configured_cloud))"
    by (simp add: mem_defs configured_cloud_def)
  note run = get_or_create_bucket_existing_idempotent [OF 1 2]
  from run have a: "get_or_create_bucket (mem_runtime no_fault) demo_self ''demo''
      (start configured_cloud) =
     (Inr (OBucket ''demo''),
      (start configured_cloud)
        \<lparr> logged := [Info ''Using existing bucket: demo''],
          trace := [(ClientBucket OClient ''demo'', Returned (PObj (OBucket ''demo''))),
                    (BucketExists (OBucket ''demo''), Returned (PBool True))] \<rparr>)"
    by (simp only: start_simps self_facts append_Nil append_Cons list.simps)
  from run have b: "world (snd (get_or_create_bucket (mem_runtime no_fault) demo_self ''demo''
     (snd (get_or_create_bucket (mem_runtime no_fault) demo_self ''demo''
        (start configured_cloud))))) = world (start configured_cloud)"
    by blast
  show ?thesis
    by (intro conjI) (rule a, rule b [unfolded start_simps])
qed

text \<open>
  C7. When \<open>get_or_create_bucket\<close> returns after \<open>bucket.exists()\<close> answered \<open>False\<close>, it
  has run on the runtime, each on the world the one before left: \<open>client.bucket\<close>,
  \<open>exists\<close>, \<open>client.bucket\<close>, then \<open>create\<close> in \<open>config['location']\<close>, the assignment of
  \<open>config['default_storage_class']\<close>, the assignment of \<open>config['labels']\<close>, \<open>patch\<close>,
  the assignment of \<open>config['lifecycle_rules']\<close> and \<open>patch\<close>, all on the bucket object
  it returns; every one of them returned, the world it ends in is the one the last
  \<open>patch\<close> left, and the trace shows exactly these nine calls.
\<close>

theorem get_or_create_bucket_creates_configured:
  assumes "get_or_create_bucket rt self n s = (Inr b, s')"
    and "(BucketExists b0, Returned (PBool False)) \<in> set (new_calls s s')"
  shows "new_calls s s' =
           [(ClientBucket (client self) n, Returned (PObj b0)),
            (BucketExists b0, Returned (PBool False)),
            (ClientBucket (client self) n, Returned (PObj b)),
            (BucketCreate b (location (config self)), Returned PNone),
            (BucketSetStorageClass b (default_storage_class (config self)), Returned PNone),
            (BucketSetLabels b (labels (config self)), Returned PNone),
            (BucketPatch b, Returned PNone),
            (BucketSetLifecycleRules b (lifecycle_rules (config self)), Returned PNone),
            (BucketPatch b, Returned PNone)] \<and>
         (\<exists>w1 w2 w3 w4 w5 w6 w7 w8.
           client_bucket rt (client self) n (world s) = (Inr b0, w1) \<and>
           bucket_exists rt b0 w1 = (Inr False, w2) \<and>
           client_bucket rt (client self) n w2 = (Inr b, w3) \<and>
           bucket_create rt b (location (config self)) w3 = (Inr (), w4) \<and>
           bucket_set_storage_class rt b (default_storage_class (config self)) w4 = (Inr (), w5) \<and>
           bucket_set_labels rt b (labels (config self)) w5 = (Inr (), w6) \<and>
           bucket_patch rt b w6 = (Inr (), w7) \<and>
           bucket_set_lifecycle_rules rt b (lifecycle_rules (config self)) w7 = (Inr (), w8) \<and>
           bucket_patch rt b w8 = (Inr (), world s'))"
proof -
  have calls: "new_calls s s' = creation_calls (client self) n b0 b (config self)"
    using postD [OF goc_created assms(1)] assms(2) by simp
  from post_fromD [OF goc_created_runs assms(1)] assms(2) calls
  show ?thesis
    by (simp add: creation_calls_def)
qed

theorem get_or_create_bucket_creates_configured_witness:
  "get_or_create_bucket (mem_runtime no_fault) custom_self ''demo'' (start empty_cloud) =
     (Inr (OBucket ''demo''),
      \<lparr> world = custom_cloud,
        logged = [Info ''Created new bucket: demo in europe-west1 with storage class NEARLINE''],
        trace =
          [(ClientBucket OClient ''demo'', Returned (PObj (OBucket ''demo''))),
           (BucketExists (OBucket ''demo''), Returned (PBool False)),
           (ClientBucket OClient ''demo'', Returned (PObj (OBucket ''demo''))),
           (BucketCreate (OBucket ''demo'') ''europe-west1'', Returned PNone),
           (BucketSetStorageClass (OBucket ''demo'') ''NEARLINE'', Returned PNone),
           (BucketSetLabels (OBucket ''demo'') [(''environment'', ''production'')], Returned PNone),
           (BucketPatch (OBucket ''demo''), Returned PNone),
           (BucketSetLifecycleRules (OBucket ''demo'') (lifecycle_rules custom_config),
            Returned PNone),
           (BucketPatch (OBucket ''demo''), Returned PNone)] \<rparr>) \<and>
   map_of (buckets custom_cloud) ''demo'' =
     Some \<lparr> meta_location = ''europe-west1'', meta_storage_class = ''NEARLINE'',
            meta_labels = [(''environment'', ''production'')],
            meta_lifecycle =
              [\<lparr> action = \<lparr> action_type = ''Delete'', storageClass = None \<rparr>,
                  condition = \<lparr> age = 7, matchesStorageClass = None \<rparr> \<rparr>] \<rparr>"
proof -
  let ?s' = "\<lparr> world = custom_cloud,
        logged = [Info ''Created new bucket: demo in europe-west1 with storage class NEARLINE''],
        trace = creation_calls OClient ''demo'' (OBucket ''demo'') (OBucket ''demo'') custom_config \<rparr>"
  have facts: "client custom_self = OClient" "config custom_self = custom_config"
    "location custom_config = ''europe-west1''" "default_storage_class custom_config = ''NEARLINE''"
    "labels custom_config = [(''environment'', ''production'')]"
    by (simp_all add: custom_self_def demo_self_def custom_config_def)
  have "(BucketExists (OBucket ''demo''), Returned (PBool False))
          \<in> set (new_calls (start empty_cloud) ?s')"
    by (simp add: new_calls_def start_simps creation_calls_def)
  from get_or_create_bucket_creates_configured [OF run_create_custom this]
  have "trace ?s' =
          [(ClientBucket OClient ''demo'', Returned (PObj (OBucket ''demo''))),
           (BucketExists (OBucket ''demo''), Returned (PBool False)),
           (ClientBucket OClient ''demo'', Returned (PObj (OBucket ''demo''))),
           (BucketCreate (OBucket ''demo'') ''europe-west1'', Returned PNone),
           (BucketSetStorageClass (OBucket ''demo'') ''NEARLINE'', Returned PNone),
           (BucketSetLabels (OBucket ''demo'') [(''environment'', ''production'')], Returned PNone),
           (BucketPatch (OBucket ''demo''), Returned PNone),
           (BucketSetLifecycleRules (OBucket ''demo'') (lifecycle_rules custom_config),
            Returned PNone),
           (BucketPatch (OBucket ''demo''), Returned PNone)]"
    by (simp add: new_calls_def start_simps facts)
  with run_create_custom show ?thesis
    by (simp add: custom_cloud_def custom_config_def)
qed

text \<open>
  C9. With \<open>GCS_LOCATION\<close> unset: \<open>create_bucket\<close> called without a location returns or
  raises what the library's \<open>client.create_bucket\<close> in \<open>US\<close> does and leaves the world
  that call leaves. \<open>get_or_create_bucket\<close>, whenever its \<open>client.bucket\<close>, \<open>exists\<close>
  (answering \<open>False\<close>) and second \<open>client.bucket\<close> return, makes as its fourth call the
  library's \<open>bucket.create\<close> in \<open>asia-south1\<close>, recorded with the outcome that call has;
  its trace is a faithful record of the calls made; and every \<open>bucket.create\<close> in it
  asks for \<open>asia-south1\<close>, which is not \<open>US\<close>.
\<close>

theorem bucket_creation_locations_differ:
  assumes "STORAGE_CONFIG py_int environ = Inr (config self)"
    and "environ ''GCS_LOCATION'' = None"
  shows "fst (create_bucket rt self n None s) =
           fst (client_create_bucket rt (client self) n ''US'' (world s)) \<and>
         world (snd (create_bucket rt self n None s)) =
           snd (client_create_bucket rt (client self) n ''US'' (world s)) \<and>
         map fst (new_calls s (snd (create_bucket rt self n None s))) =
           [ClientCreateBucket (client self) n ''US''] \<and>
         (\<forall>b0 w1 w2 b w3.
            client_bucket rt (client self) n (world s) = (Inr b0, w1) \<and>
            bucket_exists rt b0 w1 = (Inr False, w2) \<and>
            client_bucket rt (client self) n w2 = (Inr b, w3) \<longrightarrow>
            take 4 (new_calls s (snd (get_or_create_bucket rt self n s))) =
              [(ClientBucket (client self) n, Returned (PObj b0)),
               (BucketExists b0, Returned (PBool False)),
               (ClientBucket (client self) n, Returned (PObj b)),
               (BucketCreate b ''asia-south1'',
                (case fst (bucket_create rt b ''asia-south1'' w3) of
                   Inl e \<Rightarrow> Raised e | Inr u \<Rightarrow> Returned PNone))]) \<and>
         replays rt (world s) (new_calls s (snd (get_or_create_bucket rt self n s)))
           (world (snd (get_or_create_bucket rt self n s))) \<and>
         (\<forall>b l out. (BucketCreate b l, out)
              \<in> set (new_calls s (snd (get_or_create_bucket rt self n s))) \<longrightarrow>
            l = ''asia-south1'' \<and> l \<noteq> ''US'') \<and>
         (3 < length (new_calls s (snd (get_or_create_bucket rt self n s))) \<longrightarrow>
            (\<exists>b. fst (new_calls s (snd (get_or_create_bucket rt self n s)) ! 3) =
                  BucketCreate b ''asia-south1''))"
proof -
  have loc: "location (config self) = ''asia-south1''"
    using storage_config_location [OF assms(1)] assms(2) by (simp add: getenv_def)
  have cb: "create_bucket rt self n None s =
          (fst (create_bucket rt self n None s), snd (create_bucket rt self n None s))"
    by simp
  from postD [OF create_bucket_one_call cb]
  have a: "map fst (new_calls s (snd (create_bucket rt self n None s))) =
           [ClientCreateBucket (client self) n ''US'']"
    by auto
  from post_fromD [OF create_bucket_runs cb]
  have a2: "fst (create_bucket rt self n None s) =
           fst (client_create_bucket rt (client self) n ''US'' (world s)) \<and>
         world (snd (create_bucket rt self n None s)) =
           snd (client_create_bucket rt (client self) n ''US'' (world s))"
    by simp
  have g: "get_or_create_bucket rt self n s =
          (fst (get_or_create_bucket rt self n s), snd (get_or_create_bucket rt self n s))"
    by simp
  note old = postD [OF goc_location g, unfolded loc]
  note new = post_fromD [OF goc_fourth_call g, unfolded loc]
  have ne: "''asia-south1'' \<noteq> ''US''"
    by simp
  from old have o1: "\<forall>b l out. (BucketCreate b l, out)
              \<in> set (new_calls s (snd (get_or_create_bucket rt self n s))) \<longrightarrow>
            l = ''asia-south1'' \<and> l \<noteq> ''US''"
    using ne by blast
  from old have o2: "3 < length (new_calls s (snd (get_or_create_bucket rt self n s))) \<longrightarrow>
            (\<exists>b. fst (new_calls s (snd (get_or_create_bucket rt self n s)) ! 3) =
                  BucketCreate b ''asia-south1'')"
    by (elim conjE)
  from a2 a new o1 o2 show ?thesis
    by (elim conjE) (intro conjI; assumption)
qed

theorem bucket_creation_locations_differ_witness:
  "create_bucket (mem_runtime no_fault) demo_self ''demo'' None (start empty_cloud) =
     (Inr (OBucket ''demo''),
      \<lparr> world = \<lparr> buckets = [(''demo'', \<lparr> meta_location = ''US'', meta_storage_class = ''STANDARD'',
                                         meta_labels = [], meta_lifecycle = [] \<rparr>)],
                  blobs = [], staging = [] \<rparr>,
        logged = [Info ''Created bucket demo''],
        trace = [(ClientCreateBucket OClient ''demo'' ''US'', Returned (PObj (OBucket ''demo'')))] \<rparr>) \<and>
   world (snd (get_or_create_bucket (mem_runtime no_fault) demo_self ''demo'' (start empty_cloud)))
     = configured_cloud \<and>
   map_of (buckets configured_cloud) ''demo'' =
     Some \<lparr> meta_location = ''asia-south1'', meta_storage_class = ''STANDARD'',
            meta_labels = labels default_config, meta_lifecycle = lifecycle_rules default_config \<rparr> \<and>
   take 4 (new_calls (start empty_cloud)
      (snd (get_or_create_bucket (mem_runtime no_fault) demo_self ''demo'' (start empty_cloud)))) =
     [(ClientBucket OClient ''demo'', Returned (PObj (OBucket ''demo''))),
      (BucketExists (OBucket ''demo''), Returned (PBool False)),
      (ClientBucket OClient ''demo'', Returned (PObj (OBucket ''demo''))),
      (BucketCreate (OBucket ''demo'') ''asia-south1'', Returned PNone)]"
proof -
  have cfg: "STORAGE_CONFIG decimal_int Map.empty = Inr (config demo_self)"
    by (simp add: storage_config_default self_facts)
  have unset: "(Map.empty :: string \<rightharpoonup> string) ''GCS_LOCATION'' = None"
    by simp
  have h1: "client_bucket (mem_runtime no_fault) (client demo_self) ''demo''
              (world (start empty_cloud)) = (Inr (OBucket ''demo''), empty_cloud)"
    by (simp add: mem_defs)
  have h2: "bucket_exists (mem_runtime no_fault) (OBucket ''demo'') empty_cloud =
              (Inr False, empty_cloud)"
    by (simp add: mem_defs)
  have h3: "client_bucket (mem_runtime no_fault) (client demo_self) ''demo'' empty_cloud =
              (Inr (OBucket ''demo''), empty_cloud)"
    by (simp add: mem_defs)
  have h4: "fst (bucket_create (mem_runtime no_fault) (OBucket ''demo'') ''asia-south1''
              empty_cloud) = Inr ()"
    by (simp add: mem_defs)
  note inst = bucket_creation_locations_differ [OF cfg unset, of "mem_runtime no_fault" "''demo''"
      "start empty_cloud"]
  from inst have "\<forall>b0 w1 w2 b w3.
            client_bucket (mem_runtime no_fault) (client demo_self) ''demo''
              (world (start empty_cloud)) = (Inr b0, w1) \<and>
            bucket_exists (mem_runtime no_fault) b0 w1 = (Inr False, w2) \<and>
            client_bucket (mem_runtime no_fault) (client demo_self) ''demo'' w2 = (Inr b, w3) \<longrightarrow>
            take 4 (new_calls (start empty_cloud)
              (snd (get_or_create_bucket (mem_runtime no_fault) demo_self ''demo''
                 (start empty_cloud)))) =
              [(ClientBucket (client demo_self) ''demo'', Returned (PObj b0)),
               (BucketExists b0, Returned (PBool False)),
               (ClientBucket (client demo_self) ''demo'', Returned (PObj b)),
               (BucketCreate b ''asia-south1'',
                (case fst (bucket_create (mem_runtime no_fault) b ''asia-south1'' w3) of
                   Inl e \<Rightarrow> Raised e | Inr u \<Rightarrow> Returned PNone))]"
    by (elim conjE)
  from this [rule_format, OF conjI [OF h1 conjI [OF h2 h3]]]
  have "take 4 (new_calls (start empty_cloud)
      (snd (get_or_create_bucket (mem_runtime no_fault) demo_self ''demo'' (start empty_cloud)))) =
     [(ClientBucket (client demo_self) ''demo'', Returned (PObj (OBucket ''demo''))),
      (BucketExists (OBucket ''demo''), Returned (PBool False)),
      (ClientBucket (client demo_self) ''demo'', Returned (PObj (OBucket ''demo''))),
      (BucketCreate (OBucket ''demo'') ''asia-south1'',
        (case fst (bucket_create (mem_runtime no_fault) (OBucket ''demo'') ''asia-south1''
              empty_cloud) of Inl e \<Rightarrow> Raised e | Inr u \<Rightarrow> Returned PNone))]"
    .
  then have t: "take 4 (new_calls (start empty_cloud)
      (snd (get_or_create_bucket (mem_runtime no_fault) demo_self ''demo'' (start empty_cloud)))) =
     [(ClientBucket OClient ''demo'', Returned (PObj (OBucket ''demo''))),
      (BucketExists (OBucket ''demo''), Returned (PBool False)),
      (ClientBucket OClient ''demo'', Returned (PObj (OBucket ''demo''))),
      (BucketCreate (OBucket ''demo'') ''asia-south1'', Returned PNone)]"
    unfolding h4 by (simp add: self_facts)
  have w: "world (snd (get_or_create_bucket (mem_runtime no_fault) demo_self ''demo''
      (start empty_cloud))) = configured_cloud"
    unfolding run_create by simp
  have m: "map_of (buckets configured_cloud) ''demo'' =
     Some \<lparr> meta_location = ''asia-south1'', meta_storage_class = ''STANDARD'',
            meta_labels = labels default_config, meta_lifecycle = lifecycle_rules default_config \<rparr>"
    by (simp add: configured_cloud_def)
  from run_create_bucket_default w m t show ?thesis
    by (intro conjI)
qed

text \<open>
  C10. If, in one run of \<open>get_or_create_bucket\<close>, \<open>bucket.create\<close> has returned and a
  later call raises \<open>e\<close>, then the method raises \<open>e\<close> after logging it, the raising call
  is one of the two assignments, the lifecycle assignment or a patch, and it is the last
  call of the run: the calls before it are an initial part of the creation sequence, and
  nothing is called afterwards to delete the bucket or to apply the settings that are
  left.
\<close>

theorem get_or_create_bucket_not_atomic:
  assumes "get_or_create_bucket rt self n s = (r, s')"
    and "(BucketCreate b loc, Returned v) \<in> set (new_calls s s')"
    and "(ev, Raised e) \<in> set (new_calls s s')"
  shows "r = Inl e \<and>
         last (new_calls s s') = (ev, Raised e) \<and>
         new_logs s s' = [Error (''Error with bucket '' @ n @ '': '' @ str e)] \<and>
         ev \<in> {BucketSetStorageClass b (default_storage_class (config self)),
               BucketSetLabels b (labels (config self)),
               BucketPatch b,
               BucketSetLifecycleRules b (lifecycle_rules (config self))} \<and>
         (\<exists>b0. prefix (butlast (new_calls s s'))
                 (creation_calls (client self) n b0 b (config self))) \<and>
         length (new_calls s s') \<le> 9"
  using postD [OF goc_partial assms(1)] assms(2,3)
  by blast

theorem get_or_create_bucket_not_atomic_witness:
  "get_or_create_bucket (mem_runtime patch_fails) demo_self ''demo'' (start empty_cloud) =
     (Inl (Exn ''503 Service Unavailable''),
      \<lparr> world = unconfigured_cloud,
        logged = [Error ''Error with bucket demo: 503 Service Unavailable''],
        trace =
          [(ClientBucket OClient ''demo'', Returned (PObj (OBucket ''demo''))),
           (BucketExists (OBucket ''demo''), Returned (PBool False)),
           (ClientBucket OClient ''demo'', Returned (PObj (OBucket ''demo''))),
           (BucketCreate (OBucket ''demo'') ''asia-south1'', Returned PNone),
           (BucketSetStorageClass (OBucket ''demo'') ''STANDARD'', Returned PNone),
           (BucketSetLabels (OBucket ''demo'') (labels default_config), Returned PNone),
           (BucketPatch (OBucket ''demo''), Raised (Exn ''503 Service Unavailable''))] \<rparr>) \<and>
   map_of (buckets unconfigured_cloud) ''demo'' =
     Some \<lparr> meta_location = ''asia-south1'', meta_storage_class = ''STANDARD'',
            meta_labels = [], meta_lifecycle = [] \<rparr>"
proof -
  let ?s' = "\<lparr> world = unconfigured_cloud,
        logged = [Error ''Error with bucket demo: 503 Service Unavailable''],
        trace = take 6 (creation_calls OClient ''demo'' (OBucket ''demo'') (OBucket ''demo'')
                          default_config) @
                [(BucketPatch (OBucket ''demo''), Raised (Exn ''503 Service Unavailable''))] \<rparr>"
  have c: "(BucketCreate (OBucket ''demo'') ''asia-south1'', Returned PNone)
          \<in> set (new_calls (start empty_cloud) ?s')"
    by (simp add: new_calls_def start_def creation_calls_def default_config_def)
  have f: "(BucketPatch (OBucket ''demo''), Raised (Exn ''503 Service Unavailable''))
          \<in> set (new_calls (start empty_cloud) ?s')"
    by (simp add: new_calls_def start_def creation_calls_def)
  from get_or_create_bucket_not_atomic [OF run_patch_fails c f]
  have "length (trace ?s') \<le> 9"
    by (simp add: new_calls_def start_def)
  moreover have "trace ?s' =
          [(ClientBucket OClient ''demo'', Returned (PObj (OBucket ''demo''))),
           (BucketExists (OBucket ''demo''), Returned (PBool False)),
           (ClientBucket OClient ''demo'', Returned (PObj (OBucket ''demo''))),
           (BucketCreate (OBucket ''demo'') ''asia-south1'', Returned PNone),
           (BucketSetStorageClass (OBucket ''demo'') ''STANDARD'', Returned PNone),
           (BucketSetLabels (OBucket ''demo'') (labels default_config), Returned PNone),
           (BucketPatch (OBucket ''demo''), Raised (Exn ''503 Service Unavailable''))]"
    by (simp add: creation_calls_def self_facts)
  ultimately show ?thesis
    using run_patch_fails by (simp add: unconfigured_cloud_def)
qed

text \<open>
  C6. \<open>get_signed_url\<close> never raises. When it returns a URL, it has run
  \<open>client.bucket\<close>, \<open>bucket.blob\<close> and the library's \<open>generate_signed_url\<close> on that blob
  with version \<open>v4\<close>, method \<open>GET\<close> and an expiration of \<open>timedelta(minutes=15)\<close>, that is
  900 seconds counted by the library from the moment of signing; the URL is the one the
  library returned and the world is the one that call left. Conversely, whenever the
  first two calls return, the result is what the signing call gives: its URL, or \<open>None\<close>
  when it raises. When any call raises, the error is logged and the result is \<open>None\<close>.
  The trace is a faithful record of the calls made.
\<close>

theorem get_signed_url_v4_get_15_minutes:
  assumes "get_signed_url rt self bucket_name blob_name_arg s = (r, s')"
  shows "(\<exists>v. r = Inr v) \<and>
         (\<forall>url. r = Inr (Some url) \<longrightarrow>
            (\<exists>bucket blob. new_calls s s' =
               [(ClientBucket (client self) bucket_name, Returned (PObj bucket)),
                (BucketBlob bucket blob_name_arg, Returned (PObj blob)),
                (BlobGenerateSignedUrl blob ''v4'' (timedelta_minutes 15) ''GET'',
                 Returned (PStr url))]) \<and>
            new_logs s s' = []) \<and>
         (r = Inr None \<longrightarrow>
            (\<exists>ev e. new_calls s s' \<noteq> [] \<and> last (new_calls s s') = (ev, Raised e) \<and>
               new_logs s s' = [Error (''Failed to generate signed URL: '' @ str e)])) \<and>
         (\<forall>ev e. (ev, Raised e) \<in> set (new_calls s s') \<longrightarrow> r = Inr None) \<and>
         (\<forall>blob v t m out. (BlobGenerateSignedUrl blob v t m, out) \<in> set (new_calls s s') \<longrightarrow>
            v = ''v4'' \<and> total_seconds t = 15 * 60 \<and> m = ''GET'') \<and>
         replays rt (world s) (new_calls s s') (world s') \<and>
         (\<forall>url. r = Inr (Some url) \<longrightarrow>
            (\<exists>bucket blob w1 w2.
               client_bucket rt (client self) bucket_name (world s) = (Inr bucket, w1) \<and>
               bucket_blob rt bucket blob_name_arg w1 = (Inr blob, w2) \<and>
               blob_generate_signed_url rt blob ''v4'' (timedelta_minutes 15) ''GET'' w2 =
                 (Inr url, world s'))) \<and>
         (\<forall>bucket blob w1 w2 res w3.
            client_bucket rt (client self) bucket_name (world s) = (Inr bucket, w1) \<and>
            bucket_blob rt bucket blob_name_arg w1 = (Inr blob, w2) \<and>
            blob_generate_signed_url rt blob ''v4'' (timedelta_minutes 15) ''GET'' w2 = (res, w3)
            \<longrightarrow> r = (case res of Inl e \<Rightarrow> Inr None | Inr url \<Rightarrow> Inr (Some url)) \<and>
                world s' = w3)"
proof -
  note a = postD [OF get_signed_url_post assms]
  note b = post_fromD [OF get_signed_url_runs assms]
  from a have a': "(\<exists>v. r = Inr v) \<and>
         (\<forall>url. r = Inr (Some url) \<longrightarrow>
            (\<exists>bucket blob. new_calls s s' =
               [(ClientBucket (client self) bucket_name, Returned (PObj bucket)),
                (BucketBlob bucket blob_name_arg, Returned (PObj blob)),
                (BlobGenerateSignedUrl blob ''v4'' (timedelta_minutes 15) ''GET'',
                 Returned (PStr url))]) \<and>
            new_logs s s' = []) \<and>
         (r = Inr None \<longrightarrow>
            (\<exists>ev e. new_calls s s' \<noteq> [] \<and> last (new_calls s s') = (ev, Raised e) \<and>
               new_logs s s' = [Error (''Failed to generate signed URL: '' @ str e)])) \<and>
         (\<forall>ev e. (ev, Raised e) \<in> set (new_calls s s') \<longrightarrow> r = Inr None) \<and>
         (\<forall>blob v t m out. (BlobGenerateSignedUrl blob v t m, out) \<in> set (new_calls s s') \<longrightarrow>
            v = ''v4'' \<and> total_seconds t = 15 * 60 \<and> m = ''GET'')"
    by (simp add: timedelta_minutes_def)
  from a' b show ?thesis
    by (elim conjE) (intro conjI; assumption)
qed

theorem get_signed_url_v4_get_15_minutes_witness:
  "get_signed_url (mem_runtime no_fault) demo_self ''demo'' ''summary.txt'' (start empty_cloud) =
     (Inr (Some ''https://storage.googleapis.com/demo/summary.txt?X-Goog-Signature=0''),
      \<lparr> world = empty_cloud, logged = [],
        trace = [(ClientBucket OClient ''demo'', Returned (PObj (OBucket ''demo''))),
                 (BucketBlob (OBucket ''demo'') ''summary.txt'',
                  Returned (PObj (OBlob ''demo'' ''summary.txt''))),
                 (BlobGenerateSignedUrl (OBlob ''demo'' ''summary.txt'') ''v4'' (Timedelta 900)
                    ''GET'',
                  Returned (PStr
                    ''https://storage.googleapis.com/demo/summary.txt?X-Goog-Signature=0''))] \<rparr>) \<and>
   (\<exists>bucket blob w1 w2.
      client_bucket (mem_runtime no_fault) OClient ''demo'' empty_cloud = (Inr bucket, w1) \<and>
      bucket_blob (mem_runtime no_fault) bucket ''summary.txt'' w1 = (Inr blob, w2) \<and>
      blob_generate_signed_url (mem_runtime no_fault) blob ''v4'' (timedelta_minutes 15) ''GET'' w2 =
        (Inr ''https://storage.googleapis.com/demo/summary.txt?X-Goog-Signature=0'',
         empty_cloud)) \<and>
   get_signed_url (mem_runtime signing_fails) demo_self ''demo'' ''summary.txt''
     (start empty_cloud) =
     (Inr None,
      \<lparr> world = empty_cloud,
        logged = [Error ''Failed to generate signed URL: 403 Forbidden''],
        trace = [(ClientBucket OClient ''demo'', Returned (PObj (OBucket ''demo''))),
                 (BucketBlob (OBucket ''demo'') ''summary.txt'',
                  Returned (PObj (OBlob ''demo'' ''summary.txt''))),
                 (BlobGenerateSignedUrl (OBlob ''demo'' ''summary.txt'') ''v4'' (Timedelta 900)
                    ''GET'', Raised (Exn ''403 Forbidden''))] \<rparr>)"
proof -
  let ?url = "''https://storage.googleapis.com/demo/summary.txt?X-Goog-Signature=0''"
  let ?s' = "\<lparr> world = empty_cloud, logged = [],
        trace = [(ClientBucket OClient ''demo'', Returned (PObj (OBucket ''demo''))),
                 (BucketBlob (OBucket ''demo'') ''summary.txt'',
                  Returned (PObj (OBlob ''demo'' ''summary.txt''))),
                 (BlobGenerateSignedUrl (OBlob ''demo'' ''summary.txt'') ''v4'' (Timedelta 900)
                    ''GET'', Returned (PStr ?url))] \<rparr> :: (cloud, obj) state"
  from get_signed_url_v4_get_15_minutes [OF run_signed_url]
  have "\<forall>url. (Inr (Some ?url) :: exn + string option) = Inr (Some url) \<longrightarrow>
     (\<exists>bucket blob w1 w2.
        client_bucket (mem_runtime no_fault) (client demo_self) ''demo''
          (world (start empty_cloud)) = (Inr bucket, w1) \<and>
        bucket_blob (mem_runtime no_fault) bucket ''summary.txt'' w1 = (Inr blob, w2) \<and>
        blob_generate_signed_url (mem_runtime no_fault) blob ''v4'' (timedelta_minutes 15) ''GET''
          w2 = (Inr url, world ?s'))"
    by (elim conjE)
  from this [rule_format, OF refl]
  have "\<exists>bucket blob w1 w2.
      client_bucket (mem_runtime no_fault) OClient ''demo'' empty_cloud = (Inr bucket, w1) \<and>
      bucket_blob (mem_runtime no_fault) bucket ''summary.txt'' w1 = (Inr blob, w2) \<and>
      blob_generate_signed_url (mem_runtime no_fault) blob ''v4'' (timedelta_minutes 15) ''GET'' w2 =
        (Inr ?url, empty_cloud)"
    by (simp only: start_simps self_facts state.simps)
  with run_signed_url run_signing_fails show ?thesis
    by (intro conjI)
qed

text \<open>
  C8. For a library that names a blob as \<open>bucket.blob\<close> was told, a successful
  \<open>upload_file\<close> returns the last \<open>/\<close>-separated piece of \<open>file_path\<close> (what follows
  the last \<open>/\<close>, or the whole path), and its last two calls are \<open>bucket.blob\<close> with
  that name and \<open>upload_from_filename\<close> with the full path. So two uploads whose paths
  end in the same piece return the same blob name.
\<close>

theorem upload_file_names_blob_by_last_segment:
  assumes "blob_named_at_creation rt"
    and "upload_file rt self bucket_name file_path s = (Inr (Some name), s')"
  shows "name = last (py_split file_path CHR ''/'') \<and>
         name = rev (takeWhile (\<lambda>c. c \<noteq> CHR ''/'') (rev file_path)) \<and>
         (\<exists>bucket blob. drop (length (new_calls s s') - 2) (new_calls s s') =
            [(BucketBlob bucket name, Returned (PObj blob)),
             (BlobUploadFromFilename blob file_path, Returned PNone)]) \<and>
         (\<forall>other_bucket other_path t name2 t'.
            upload_file rt self other_bucket other_path t = (Inr (Some name2), t') \<and>
            last (py_split other_path CHR ''/'') = last (py_split file_path CHR ''/'') \<longrightarrow>
            name2 = name)"
proof -
  have key: "nm = last (py_split p CHR ''/'') \<and>
      (\<exists>bucket blob. drop (length (new_calls t t') - 2) (new_calls t t') =
            [(BucketBlob bucket nm, Returned (PObj blob)),
             (BlobUploadFromFilename blob p, Returned PNone)])"
    if "upload_file rt self bn p t = (Inr (Some nm), t')" for bn p t nm t'
    using postD [OF upload_file_post that] assms(1)
    unfolding blob_named_at_creation_def by fastforce
  have name: "name = last (py_split file_path CHR ''/'')"
    using key [OF assms(2)] by blast
  have same: "name2 = name"
    if "upload_file rt self other_bucket other_path t = (Inr (Some name2), t') \<and>
        last (py_split other_path CHR ''/'') = last (py_split file_path CHR ''/'')"
    for other_bucket other_path t name2 t'
    using key [of other_bucket other_path t name2 t'] that name by simp
  from key [OF assms(2)] name same show ?thesis
    unfolding last_py_split [symmetric] by blast
qed

theorem upload_file_names_blob_by_last_segment_witness:
  "upload_file (mem_runtime no_fault) demo_self ''demo'' ''reports/summary.txt''
     (start configured_cloud) =
     (Inr (Some ''summary.txt''),
      \<lparr> world = configured_cloud\<lparr>blobs := [(''demo'', ''summary.txt'')]\<rparr>,
        logged = [Info ''Using existing bucket: demo'',
                  Info ''Successfully uploaded reports/summary.txt to demo''],
        trace = [(ClientBucket OClient ''demo'', Returned (PObj (OBucket ''demo''))),
                 (BucketExists (OBucket ''demo''), Returned (PBool True)),
                 (BucketBlob (OBucket ''demo'') ''summary.txt'',
                  Returned (PObj (OBlob ''demo'' ''summary.txt''))),
                 (BlobUploadFromFilename (OBlob ''demo'' ''summary.txt'')
                    ''reports/summary.txt'', Returned PNone)] \<rparr>) \<and>
   fst (upload_file (mem_runtime no_fault) demo_self ''demo'' ''drafts/summary.txt''
     (start configured_cloud)) = Inr (Some ''summary.txt'') \<and>
   last (py_split ''reports/summary.txt'' CHR ''/'') = ''summary.txt'' \<and>
   last (py_split ''drafts/summary.txt'' CHR ''/'') = ''summary.txt''"
proof -
  from upload_file_names_blob_by_last_segment [OF mem_runtime_blob_named run_upload]
  have a: "last (py_split ''reports/summary.txt'' CHR ''/'') = ''summary.txt''"
    by simp
  have b: "last (py_split ''drafts/summary.txt'' CHR ''/'') = ''summary.txt''"
    by (simp add: py_split_def)
  from run_upload run_upload_other a b show ?thesis
    by simp
qed

text \<open>
  C1, as stated, fails: \<open>get_or_create_bucket\<close> on a bucket that does not exist makes
  nine library calls, not one.
\<close>

theorem get_or_create_bucket_makes_nine_calls:
  "length (new_calls (start empty_cloud)
     (snd (invoke (mem_runtime no_fault) demo_self (GetOrCreateBucket ''demo'')
        (start empty_cloud)))) = 9"
  unfolding run_invoke_create by (simp add: new_calls_def start_simps creation_calls_def)

text \<open>
  C1, amended. Every public method makes at least one library call, and its trace is a
  faithful record of the calls it made. \<open>get_bucket\<close> and \<open>create_bucket\<close> make exactly
  one: they return or raise what the library's \<open>client.get_bucket\<close> and
  \<open>client.create_bucket\<close> (in \<open>US\<close> when no location is given) return or raise on the
  world the method started in, leave the world that call leaves, and log at most one
  entry. Every other method makes at least two calls whenever its first call returns.
\<close>

theorem only_get_and_create_forward_one_call:
  assumes "invoke rt self mc s = (r, s')"
  shows "new_calls s s' \<noteq> [] \<and>
         (\<forall>ev. forwarded_call self mc = Some ev \<longrightarrow>
            (\<exists>out. new_calls s s' = [(ev, out)] \<and>
               (case out of Raised e \<Rightarrow> r = Inl e | Returned v \<Rightarrow> r = Inr v)) \<and>
            length (new_logs s s') \<le> 1) \<and>
         (forwarded_call self mc = None \<and> (\<exists>v. snd (hd (new_calls s s')) = Returned v) \<longrightarrow>
            2 \<le> length (new_calls s s')) \<and>
         replays rt (world s) (new_calls s s') (world s') \<and>
         (\<forall>n. mc = GetBucket n \<longrightarrow>
            r = map_sum id PObj (fst (client_get_bucket rt (client self) n (world s))) \<and>
            world s' = snd (client_get_bucket rt (client self) n (world s))) \<and>
         (\<forall>n loc. mc = CreateBucket n loc \<longrightarrow>
            r = map_sum id PObj (fst (client_create_bucket rt (client self) n
                    (case loc of None \<Rightarrow> ''US'' | Some l \<Rightarrow> l) (world s))) \<and>
            world s' = snd (client_create_bucket rt (client self) n
                    (case loc of None \<Rightarrow> ''US'' | Some l \<Rightarrow> l) (world s)))"
  using postD [OF invoke_calls_post assms] post_fromD [OF invoke_runs assms]
  by (elim conjE) (intro conjI; assumption)

theorem only_get_and_create_forward_one_call_witness:
  "invoke (mem_runtime no_fault) demo_self (GetBucket ''demo'') (start configured_cloud) =
     (Inr (PObj (OBucket ''demo'')),
      \<lparr> world = configured_cloud, logged = [],
        trace = [(ClientGetBucket OClient ''demo'', Returned (PObj (OBucket ''demo'')))] \<rparr>) \<and>
   client_get_bucket (mem_runtime no_fault) OClient ''demo'' configured_cloud =
     (Inr (OBucket ''demo''), configured_cloud) \<and>
   invoke (mem_runtime no_fault) demo_self (CreateBucket ''demo'' None) (start empty_cloud) =
     (Inr (PObj (OBucket ''demo'')),
      \<lparr> world = \<lparr> buckets = [(''demo'', \<lparr> meta_location = ''US'', meta_storage_class = ''STANDARD'',
                                         meta_labels = [], meta_lifecycle = [] \<rparr>)],
                  blobs = [], staging = [] \<rparr>,
        logged = [Info ''Created bucket demo''],
        trace = [(ClientCreateBucket OClient ''demo'' ''US'', Returned (PObj (OBucket ''demo'')))] \<rparr>) \<and>
   snd (client_create_bucket (mem_runtime no_fault) OClient ''demo'' ''US'' empty_cloud) =
     \<lparr> buckets = [(''demo'', \<lparr> meta_location = ''US'', meta_storage_class = ''STANDARD'',
                               meta_labels = [], meta_lifecycle = [] \<rparr>)],
       blobs = [], staging = [] \<rparr> \<and>
   forwarded_call demo_self (GetBucket ''demo'') = Some (ClientGetBucket OClient ''demo'') \<and>
   forwarded_call demo_self (GetOrCreateBucket ''demo'') = None \<and>
   2 \<le> length (new_calls (start empty_cloud)
     (snd (invoke (mem_runtime no_fault) demo_self (GetOrCreateBucket ''demo'')
        (start empty_cloud))))"
proof -
  have "snd (hd (new_calls (start empty_cloud)
      \<lparr> world = configured_cloud,
        logged = [Info ''Created new bucket: demo in asia-south1 with storage class STANDARD''],
        trace = creation_calls OClient ''demo'' (OBucket ''demo'') (OBucket ''demo'')
                  default_config \<rparr>)) = Returned (PObj (OBucket ''demo''))"
    by (simp add: new_calls_def start_simps creation_calls_def)
  with only_get_and_create_forward_one_call [OF run_invoke_create]
  have two: "2 \<le> length (new_calls (start empty_cloud)
      \<lparr> world = configured_cloud,
        logged = [Info ''Created new bucket: demo in asia-south1 with storage class STANDARD''],
        trace = creation_calls OClient ''demo'' (OBucket ''demo'') (OBucket ''demo'')
                  default_config \<rparr>)"
    by simp
  have g: "client_get_bucket (mem_runtime no_fault) OClient ''demo'' configured_cloud =
     (Inr (OBucket ''demo''), configured_cloud)"
    by (simp add: mem_defs configured_cloud_def)
  from only_get_and_create_forward_one_call [OF run_invoke_create_bucket]
  have "\<forall>n loc. CreateBucket ''demo'' None = CreateBucket n loc \<longrightarrow>
          Inr (PObj (OBucket ''demo'')) =
            map_sum id PObj (fst (client_create_bucket (mem_runtime no_fault) (client demo_self) n
              (case loc of None \<Rightarrow> ''US'' | Some l \<Rightarrow> l) (world (start empty_cloud)))) \<and>
          world \<lparr> world = \<lparr> buckets = [(''demo'', \<lparr> meta_location = ''US'',
                     meta_storage_class = ''STANDARD'', meta_labels = [], meta_lifecycle = [] \<rparr>)],
                  blobs = [], staging = [] \<rparr>,
                  logged = [Info ''Created bucket demo''],
                  trace = [(ClientCreateBucket OClient ''demo'' ''US'',
                            Returned (PObj (OBucket ''demo'')))] \<rparr> =
            snd (client_create_bucket (mem_runtime no_fault) (client demo_self) n
              (case loc of None \<Rightarrow> ''US'' | Some l \<Rightarrow> l) (world (start empty_cloud)))"
    by (elim conjE)
  from this [rule_format, OF refl]
  have c: "snd (client_create_bucket (mem_runtime no_fault) OClient ''demo'' ''US'' empty_cloud) =
     \<lparr> buckets = [(''demo'', \<lparr> meta_location = ''US'', meta_storage_class = ''STANDARD'',
                               meta_labels = [], meta_lifecycle = [] \<rparr>)],
       blobs = [], staging = [] \<rparr>"
    by (simp add: start_simps self_facts)
  from two g c show ?thesis
    unfolding run_invoke_get_bucket run_invoke_create run_invoke_create_bucket
    by (simp add: self_facts)
qed

text \<open>
  C2, as stated, fails: on the same failure of the library, \<open>get_bucket\<close> re-raises and
  \<open>list_files\<close> returns the empty list.
\<close>

theorem error_outcome_not_uniform:
  "fst (invoke (mem_runtime every_call_fails) demo_self (GetBucket ''demo'') (start empty_cloud)) =
     Inl (Exn ''503 Service Unavailable'') \<and>
   fst (invoke (mem_runtime every_call_fails) demo_self (ListFiles ''demo'') (start empty_cloud)) =
     Inr (PStrs [])"
  unfolding run_get_bucket_fails run_list_files_fails by simp

text \<open>
  C2, amended. In every public method, a library call that raises \<open>e\<close> is the last call
  of the run; the last log entry of the run is then an error message ending in
  \<open>str(e)\<close>; and the method re-raises \<open>e\<close> (\<open>get_bucket\<close>, \<open>create_bucket\<close>,
  \<open>get_or_create_bucket\<close>, \<open>download_file\<close>, \<open>delete_file\<close>) or returns its default
  (\<open>None\<close> for \<open>upload_file\<close> and \<open>get_signed_url\<close>, the empty list for \<open>list_files\<close>).
\<close>

theorem error_logged_then_reraised_or_defaulted:
  assumes "invoke rt self mc s = (r, s')"
    and "(ev, Raised e) \<in> set (new_calls s s')"
  shows "last (new_calls s s') = (ev, Raised e) \<and>
         new_logs s s' \<noteq> [] \<and> logs_error e (last (new_logs s s')) \<and>
         r = (if reraises mc then Inl e else Inr (default_value mc))"
  using postD [OF invoke_error_post assms(1)] assms(2)
  by blast

theorem error_logged_then_reraised_or_defaulted_witness:
  "invoke (mem_runtime every_call_fails) demo_self (GetBucket ''demo'') (start empty_cloud) =
     (Inl (Exn ''503 Service Unavailable''),
      \<lparr> world = empty_cloud,
        logged = [Error ''Failed to get bucket demo: 503 Service Unavailable''],
        trace = [(ClientGetBucket OClient ''demo'', Raised (Exn ''503 Service Unavailable''))] \<rparr>) \<and>
   invoke (mem_runtime every_call_fails) demo_self (ListFiles ''demo'') (start empty_cloud) =
     (Inr (PStrs []),
      \<lparr> world = empty_cloud,
        logged = [Error ''Failed to list files: 503 Service Unavailable''],
        trace = [(ClientBucket OClient ''demo'', Raised (Exn ''503 Service Unavailable''))] \<rparr>) \<and>
   logs_error (Exn ''503 Service Unavailable'')
     (Error ''Failed to list files: 503 Service Unavailable'')"
proof -
  have "(ClientBucket OClient ''demo'', Raised (Exn ''503 Service Unavailable''))
          \<in> set (new_calls (start empty_cloud)
               \<lparr> world = empty_cloud,
                 logged = [Error ''Failed to list files: 503 Service Unavailable''],
                 trace = [(ClientBucket OClient ''demo'',
                           Raised (Exn ''503 Service Unavailable''))] \<rparr>)"
    by (simp add: new_calls_def start_simps)
  from error_logged_then_reraised_or_defaulted [OF run_list_files_fails this]
  have "logs_error (Exn ''503 Service Unavailable'')
     (Error ''Failed to list files: 503 Service Unavailable'')"
    by (simp add: new_logs_def start_simps)
  with run_get_bucket_fails run_list_files_fails show ?thesis
    by simp
qed



end
